theory Spec2Isabelle
  imports Main "HOL-Library.Word"
begin

unbundle bit_operations_syntax

section \<open>The distributed mutual exclusion engine\<close>

text \<open>
  Embedding of \<^verbatim>\<open>net/mutex/distributed_mutual_exclusion_service.{h,cc}\<close>.
  \<^verbatim>\<open>std::size_t\<close> clocks are 64-bit words (the wire format carries them in eight
  bytes), a peer's \<^verbatim>\<open>node_id_t\<close> is a byte and the node's own \<^verbatim>\<open>options.id\<close>
  is a C \<^verbatim>\<open>int\<close>. A \<^verbatim>\<open>PeerNetworkEntry&\<close> is the index of the entry in
  \<^verbatim>\<open>network\<close>. What a handler does to the outside world (messages handed to a
  peer's \<^verbatim>\<open>SendMessage\<close>, calls of the caller's operation) is returned as a list of
  effects, in program order. The \<^verbatim>\<open>bad_optional_access\<close> thrown by
  \<^verbatim>\<open>util::optional::value()\<close> on an empty optional is the error value of a handler.
  The type of errors is shared by the whole development: \<open>buffer_exception\<close> is the
  exception of \<^verbatim>\<open>util::buffer\<close>, \<open>memory_fault\<close> an access outside an allocated
  array, \<open>does_not_return\<close> a loop that never ends and \<open>Error\<close> a
  \<^verbatim>\<open>net::Error\<close> with its message.
  Member names lose their trailing underscore (\<^verbatim>\<open>timestamp_\<close> is \<open>timestamp\<close>).
\<close>

datatype State = kWaiting | kRequesting | kInCriticalSection

datatype error = bad_optional_access | peer_link_error | buffer_exception | memory_fault
  | does_not_return | Error string

record RequestMessage =
  rq_timestamp :: "64 word"
  rq_file_name :: string

record ReplyMessage =
  rp_timestamp :: "64 word"
  rp_file_name :: string

record PeerNetworkEntry =
  connection_id :: "8 word"
  have_permission_for :: "string set"

record 'op MutualExclusionRequest =
  mr_file_name :: string
  mr_operation :: 'op
  mr_timestamp :: "64 word"

record 'op mutex_service =
  options_id :: int
  network :: "PeerNetworkEntry list"
  timestamp :: "64 word"
  state :: State
  my_request :: "'op MutualExclusionRequest option"
  delayed_requests :: "(nat \<times> RequestMessage) list"

datatype 'op effect =
    SendRequest nat RequestMessage
  | SendReply nat ReplyMessage
  | RunOperation 'op
  | OperationError 'op

text \<open>The messages a peer link can deliver to \<^verbatim>\<open>OnReceiveMessage\<close>.\<close>

datatype peer_message =
    Request RequestMessage
  | Reply ReplyMessage
  | ErrorMessage string
  | OtherOpcode "8 word"

definition constructed :: "int \<Rightarrow> PeerNetworkEntry list \<Rightarrow> 'op mutex_service" where
  "constructed self_id peers =
     \<lparr>options_id = self_id, network = peers, timestamp = 0, state = kWaiting,
      my_request = None, delayed_requests = []\<rparr>"

definition emplace_permission :: "nat \<Rightarrow> string \<Rightarrow> 'op mutex_service \<Rightarrow> 'op mutex_service" where
  "emplace_permission i f s =
     s\<lparr>network := (network s)[i := (network s ! i)
          \<lparr>have_permission_for := insert f (have_permission_for (network s ! i))\<rparr>]\<rparr>"

definition erase_permission :: "nat \<Rightarrow> string \<Rightarrow> 'op mutex_service \<Rightarrow> 'op mutex_service" where
  "erase_permission i f s =
     s\<lparr>network := (network s)[i := (network s ! i)
          \<lparr>have_permission_for := have_permission_for (network s ! i) - {f}\<rparr>]\<rparr>"

definition reply_to :: "'op mutex_service \<Rightarrow> nat \<Rightarrow> string \<Rightarrow> 'op effect" where
  "reply_to s i f = SendReply i \<lparr>rp_timestamp = timestamp s, rp_file_name = f\<rparr>"

definition delay_request :: "nat \<Rightarrow> RequestMessage \<Rightarrow> 'op mutex_service \<Rightarrow> 'op mutex_service" where
  "delay_request i request s = s\<lparr>delayed_requests := delayed_requests s @ [(i, request)]\<rparr>"

definition OnReceiveRequest ::
  "'op mutex_service \<Rightarrow> nat \<Rightarrow> RequestMessage \<Rightarrow> error + ('op mutex_service \<times> 'op effect list)" where
  "OnReceiveRequest s0 i request =
     (let file_name = rq_file_name request;
          s = s0\<lparr>timestamp := max (rq_timestamp request + 1) (timestamp s0 + 1)\<rparr>
      in case state s of
           kWaiting \<Rightarrow>
             Inr (erase_permission i file_name s, [reply_to s i file_name])
         | kInCriticalSection \<Rightarrow>
             Inr (delay_request i request s, [])
         | kRequesting \<Rightarrow>
             (case my_request s of
                None \<Rightarrow> Inl bad_optional_access
              | Some mine \<Rightarrow>
                  if mr_file_name mine \<noteq> file_name then
                    Inr (erase_permission i file_name s, [reply_to s i file_name])
                  else if mr_timestamp mine > rq_timestamp request \<or>
                          (mr_timestamp mine = rq_timestamp request \<and>
                           options_id s > uint (connection_id (network s ! i))) then
                    Inr (s, [reply_to s i file_name])
                  else
                    Inr (delay_request i request s, [])))"

definition PerformCriticalSection ::
  "'op mutex_service \<Rightarrow> error + ('op mutex_service \<times> 'op effect list)" where
  "PerformCriticalSection s =
     (case my_request s of
        None \<Rightarrow> Inl bad_optional_access
      | Some req \<Rightarrow> Inr (s, [RunOperation (mr_operation req)]))"

definition has_mutual_exclusion :: "'op mutex_service \<Rightarrow> string \<Rightarrow> bool" where
  "has_mutual_exclusion s file_name =
     list_all (\<lambda>entry. file_name \<in> have_permission_for entry) (network s)"

definition CheckForMutualExclusion ::
  "'op mutex_service \<Rightarrow> error + ('op mutex_service \<times> 'op effect list)" where
  "CheckForMutualExclusion s =
     (case my_request s of
        None \<Rightarrow> Inl bad_optional_access
      | Some req \<Rightarrow>
          if has_mutual_exclusion s (mr_file_name req)
          then PerformCriticalSection (s\<lparr>state := kInCriticalSection\<rparr>)
          else Inr (s, []))"

definition OnReceiveMessage ::
  "'op mutex_service \<Rightarrow> nat \<Rightarrow> peer_message \<Rightarrow> error + ('op mutex_service \<times> 'op effect list)" where
  "OnReceiveMessage s i msg =
     (case msg of
        ErrorMessage message \<Rightarrow> Inl peer_link_error
      | Reply reply \<Rightarrow>
          CheckForMutualExclusion
            (emplace_permission i (rp_file_name reply)
               (s\<lparr>timestamp := max (rp_timestamp reply + 1) (timestamp s + 1)\<rparr>))
      | Request request \<Rightarrow> OnReceiveRequest s i request
      | OtherOpcode opc \<Rightarrow> Inr (s, []))"

fun requests_for :: "RequestMessage \<Rightarrow> nat \<Rightarrow> PeerNetworkEntry list \<Rightarrow> 'op effect list" where
  "requests_for m i [] = []"
| "requests_for m i (entry # rest) =
     (if rq_file_name m \<notin> have_permission_for entry
      then SendRequest i m # requests_for m (Suc i) rest
      else requests_for m (Suc i) rest)"

definition RequestMutualExclusion ::
  "'op mutex_service \<Rightarrow> error + ('op mutex_service \<times> 'op effect list)" where
  "RequestMutualExclusion s0 =
     (let s = s0\<lparr>state := kRequesting\<rparr>
      in case my_request s of
           None \<Rightarrow> Inl bad_optional_access
         | Some req \<Rightarrow>
             Inr (s, requests_for
                       \<lparr>rq_timestamp = mr_timestamp req, rq_file_name = mr_file_name req\<rparr>
                       0 (network s)))"

definition RunWithMutualExclusion ::
  "'op mutex_service \<Rightarrow> string \<Rightarrow> 'op \<Rightarrow> error + ('op mutex_service \<times> 'op effect list)" where
  "RunWithMutualExclusion s file_name operation =
     (if my_request s \<noteq> None \<or> state s \<noteq> kWaiting then
        Inr (s, [OperationError operation])
      else
        case RequestMutualExclusion
               (s\<lparr>my_request := Some \<lparr>mr_file_name = file_name, mr_operation = operation,
                                       mr_timestamp = timestamp s\<rparr>\<rparr>) of
          Inl e \<Rightarrow> Inl e
        | Inr (s1, sent) \<Rightarrow>
            (case CheckForMutualExclusion s1 of
               Inl e \<Rightarrow> Inl e
             | Inr (s2, entered) \<Rightarrow> Inr (s2, sent @ entered)))"

text \<open>
  \<^verbatim>\<open>DeliverDelayedRequests\<close> loops while the queue is not empty: it hands the front
  of the queue to \<^verbatim>\<open>OnReceiveRequest\<close> and pops it afterwards. The handler may push
  to the back of the same queue, so the loop need not end; not returning is \<open>None\<close>.
\<close>

partial_function (option) DeliverDelayedRequests ::
  "'op mutex_service \<Rightarrow> 'op effect list \<Rightarrow> (error + ('op mutex_service \<times> 'op effect list)) option" where
  "DeliverDelayedRequests s acc =
     (case delayed_requests s of
        [] \<Rightarrow> Some (Inr (s, acc))
      | next # queued \<Rightarrow>
          (case OnReceiveRequest s (fst next) (snd next) of
             Inl e \<Rightarrow> Some (Inl e)
           | Inr (s', out) \<Rightarrow>
               DeliverDelayedRequests
                 (s'\<lparr>delayed_requests := tl (delayed_requests s')\<rparr>) (acc @ out)))"

declare DeliverDelayedRequests.simps [code]

definition ReleaseMutualExclusion ::
  "'op mutex_service \<Rightarrow> (error + ('op mutex_service \<times> 'op effect list)) option" where
  "ReleaseMutualExclusion s =
     DeliverDelayedRequests (s\<lparr>my_request := None, state := kWaiting\<rparr>) []"


text \<open>Observers used to state what a handler sent.\<close>

fun request_targets :: "'op effect list \<Rightarrow> nat list" where
  "request_targets [] = []"
| "request_targets (SendRequest k m # es) = k # request_targets es"
| "request_targets (e # es) = request_targets es"

text \<open>Requests arriving one after the other, each handled to completion.\<close>

fun receive_all ::
  "'op mutex_service \<Rightarrow> (nat \<times> RequestMessage) list \<Rightarrow> error + ('op mutex_service \<times> 'op effect list)" where
  "receive_all s [] = Inr (s, [])"
| "receive_all s (arrival # rest) =
     (case OnReceiveRequest s (fst arrival) (snd arrival) of
        Inl e \<Rightarrow> Inl e
      | Inr (s', out) \<Rightarrow>
          (case receive_all s' rest of
             Inl e \<Rightarrow> Inl e
           | Inr (s'', out') \<Rightarrow> Inr (s'', out @ out')))"

definition at_rest :: "'op mutex_service \<Rightarrow> string \<Rightarrow> bool" where
  "at_rest s F \<longleftrightarrow> state s = kWaiting \<and> my_request s = None \<and> has_mutual_exclusion s F"

text \<open>
  The states that one engine can reach: it is constructed with no permission, and then
  handles calls of \<^verbatim>\<open>RunWithMutualExclusion\<close>, messages from its peers, and the
  release of the critical section by the operation that runs in it. \<open>engine_inv\<close> is the
  invariant used below: the engine waits exactly when it has no request, and in the critical
  section every peer's set holds the requested file.
\<close>

inductive reachable_engine :: "'op mutex_service \<Rightarrow> bool" where
  start: "\<forall>entry \<in> set peers. have_permission_for entry = {} \<Longrightarrow>
          reachable_engine (constructed self_id peers)"
| run: "reachable_engine s \<Longrightarrow> RunWithMutualExclusion s f op = Inr (s', effs) \<Longrightarrow>
        reachable_engine s'"
| receive: "reachable_engine s \<Longrightarrow> i < length (network s) \<Longrightarrow>
            OnReceiveMessage s i m = Inr (s', effs) \<Longrightarrow> reachable_engine s'"
| release: "reachable_engine s \<Longrightarrow> state s = kInCriticalSection \<Longrightarrow>
            ReleaseMutualExclusion s = Some (Inr (s', effs)) \<Longrightarrow> reachable_engine s'"

definition engine_inv :: "'op mutex_service \<Rightarrow> bool" where
  "engine_inv s \<longleftrightarrow>
     (state s = kWaiting \<longleftrightarrow> my_request s = None) \<and>
     (state s = kInCriticalSection \<longrightarrow>
        (\<exists>req. my_request s = Some req \<and> has_mutual_exclusion s (mr_file_name req)))"

subsection \<open>The network of engines\<close>

text \<open>
  Several engines and the peer links between them. Every ordered pair of nodes has one
  link, which delivers in sending order (TCP); across links any interleaving is possible.
  \<open>in_flight\<close> holds the messages sent and not yet delivered, oldest first, with sender
  and receiver. Node \<open>i\<close> keeps its peers in node order, so its \<open>k\<close>-th entry is node
  \<open>peer_of i k\<close>. A step is a local \<^verbatim>\<open>RunWithMutualExclusion\<close>, the release of the
  critical section by the operation's completion callback, or the delivery of the oldest
  message of one link to \<^verbatim>\<open>OnReceiveMessage\<close>; every handler runs to completion.
\<close>

record 'op system =
  nodes :: "'op mutex_service list"
  in_flight :: "(nat \<times> nat \<times> peer_message) list"

datatype 'op event = Run nat string 'op | Release nat | Deliver nat nat

definition peer_of :: "nat \<Rightarrow> nat \<Rightarrow> nat" where
  "peer_of i k = (if k < i then k else Suc k)"

definition entry_of :: "nat \<Rightarrow> nat \<Rightarrow> nat" where
  "entry_of i j = (if j < i then j else j - 1)"

fun posted :: "nat \<Rightarrow> 'op effect list \<Rightarrow> (nat \<times> nat \<times> peer_message) list" where
  "posted i [] = []"
| "posted i (SendRequest k m # es) = (i, peer_of i k, Request m) # posted i es"
| "posted i (SendReply k m # es) = (i, peer_of i k, Reply m) # posted i es"
| "posted i (RunOperation op # es) = posted i es"
| "posted i (OperationError op # es) = posted i es"

fun next_message :: "nat \<Rightarrow> nat \<Rightarrow> (nat \<times> nat \<times> peer_message) list \<Rightarrow>
    (peer_message \<times> (nat \<times> nat \<times> peer_message) list) option" where
  "next_message a b [] = None"
| "next_message a b ((x, y, m) # rest) =
     (if x = a \<and> y = b then Some (m, rest)
      else map_option (\<lambda>(m', rest'). (m', (x, y, m) # rest')) (next_message a b rest))"

definition settle :: "'op system \<Rightarrow> nat \<Rightarrow> (nat \<times> nat \<times> peer_message) list \<Rightarrow>
    error + ('op mutex_service \<times> 'op effect list) \<Rightarrow> 'op system option" where
  "settle sys i pending r =
     (case r of
        Inl e \<Rightarrow> None
      | Inr (n, effs) \<Rightarrow>
          Some \<lparr>nodes = (nodes sys)[i := n], in_flight = pending @ posted i effs\<rparr>)"

fun step :: "'op system \<Rightarrow> 'op event \<Rightarrow> 'op system option" where
  "step sys (Run i f op) =
     (if i < length (nodes sys)
      then settle sys i (in_flight sys) (RunWithMutualExclusion (nodes sys ! i) f op)
      else None)"
| "step sys (Release i) =
     (if i < length (nodes sys) \<and> state (nodes sys ! i) = kInCriticalSection
      then (case ReleaseMutualExclusion (nodes sys ! i) of
              None \<Rightarrow> None
            | Some r \<Rightarrow> settle sys i (in_flight sys) r)
      else None)"
| "step sys (Deliver a b) =
     (if a < length (nodes sys) \<and> b < length (nodes sys) \<and> a \<noteq> b
      then (case next_message a b (in_flight sys) of
              None \<Rightarrow> None
            | Some (m, rest) \<Rightarrow>
                settle sys b rest (OnReceiveMessage (nodes sys ! b) (entry_of b a) m))
      else None)"

fun run :: "'op system \<Rightarrow> 'op event list \<Rightarrow> 'op system option" where
  "run sys [] = Some sys"
| "run sys (e # es) = (case step sys e of None \<Rightarrow> None | Some sys' \<Rightarrow> run sys' es)"

definition peers_of :: "int list \<Rightarrow> nat \<Rightarrow> PeerNetworkEntry list" where
  "peers_of ids i =
     map (\<lambda>j. \<lparr>connection_id = word_of_int (ids ! j), have_permission_for = {}\<rparr>)
         (filter (\<lambda>j. j \<noteq> i) [0..<length ids])"

definition started :: "int list \<Rightarrow> 'op system" where
  "started ids =
     \<lparr>nodes = map (\<lambda>i. constructed (ids ! i) (peers_of ids i)) [0..<length ids],
      in_flight = []\<rparr>"

text \<open>
  A schedule of three nodes with the ids 1, 2 and 3 (nodes 0, 1 and 2), all on the file
  \<open>f\<close>. Node 0 enters and leaves, then node 2 enters and leaves: node 0 is left with
  the permission of node 1 and without that of node 2. Then nodes 0 and 1 both ask, node 1
  with the older clock: node 0 asks node 2 only, concedes to node 1 and keeps the
  permission of node 1 that it has just given up.
\<close>

definition stale_permission_schedule :: "nat event list" where
  "stale_permission_schedule =
    [Run 0 ''f'' 1, Deliver 0 1, Deliver 0 2, Deliver 1 0, Deliver 2 0, Release 0,
     Run 2 ''f'' 2, Deliver 2 0, Deliver 2 1, Deliver 0 2, Deliver 1 2, Release 2,
     Run 0 ''f'' 3, Run 1 ''f'' 4, Deliver 1 0, Deliver 0 2, Deliver 1 2,
     Deliver 2 0, Deliver 0 1, Deliver 2 1]"

definition critical_sections :: "'op system \<Rightarrow> (State \<times> string option) list" where
  "critical_sections sys =
     map (\<lambda>n. (state n, map_option mr_file_name (my_request n))) (nodes sys)"

text \<open>Concrete engines used as examples below.\<close>

definition two_peers :: "PeerNetworkEntry list" where
  "two_peers = [\<lparr>connection_id = 2, have_permission_for = {}\<rparr>,
                \<lparr>connection_id = 3, have_permission_for = {''f''}\<rparr>]"

definition asking :: "nat mutex_service" where
  "asking = \<lparr>options_id = 1, network = two_peers, timestamp = 5, state = kRequesting,
             my_request = Some \<lparr>mr_file_name = ''f'', mr_operation = 7, mr_timestamp = 4\<rparr>,
             delayed_requests = []\<rparr>"

definition fresh_peers :: "PeerNetworkEntry list" where
  "fresh_peers = [\<lparr>connection_id = 2, have_permission_for = {}\<rparr>,
                  \<lparr>connection_id = 3, have_permission_for = {}\<rparr>]"

definition entered :: "nat mutex_service" where
  "entered = \<lparr>options_id = 1,
             network = [\<lparr>connection_id = 2, have_permission_for = {''f''}\<rparr>,
                        \<lparr>connection_id = 3, have_permission_for = {''f''}\<rparr>],
             timestamp = 7, state = kInCriticalSection,
             my_request = Some \<lparr>mr_file_name = ''f'', mr_operation = 7, mr_timestamp = 0\<rparr>,
             delayed_requests = [(1, \<lparr>rq_timestamp = 6, rq_file_name = ''g''\<rparr>)]\<rparr>"

section \<open>The byte buffer\<close>

text \<open>
  Embedding of \<^verbatim>\<open>util/buffer.{h,cc}\<close>, the circular buffer behind the socket queues
  and message bodies. \<open>b_data\<close> is the array \<^verbatim>\<open>data_\<close>, the other fields are
  \<^verbatim>\<open>capacity_\<close>, \<^verbatim>\<open>read_\<close>, \<^verbatim>\<open>write_\<close> and \<^verbatim>\<open>full_\<close>. A pointer into the
  array is an offset. \<^verbatim>\<open>memcpy\<close> outside the array is the error \<open>memory_fault\<close>;
  \<^verbatim>\<open>new uint8_t[n]\<close> gives \<open>n\<close> zero bytes (no result below reads a byte that was
  not written first). Sizes are \<^verbatim>\<open>std::size_t\<close>; the one place where the code can
  overflow, the doubling in \<^verbatim>\<open>resize\<close>, wraps at \<open>2 ^ 64\<close>. Operations are named
  \<open>buffer_\<close> and the member function.
\<close>

type_synonym byte = "8 word"

text \<open>Sequencing of steps that can fail: the first error ends the computation.\<close>

definition bindE :: "error + 'a \<Rightarrow> ('a \<Rightarrow> error + 'b) \<Rightarrow> error + 'b" where
  "bindE r k = (case r of Inl e \<Rightarrow> Inl e | Inr x \<Rightarrow> k x)"

record buffer =
  b_data :: "byte list"
  b_capacity :: nat
  b_read :: nat
  b_write :: nat
  b_full :: bool

text \<open>\<^verbatim>\<open>buffer::max_size\<close> and \<^verbatim>\<open>buffer::default_size\<close>.\<close>

definition max_size :: nat where
  "max_size = 2 ^ 64 - 1"

definition default_size :: nat where
  "default_size = 1024"

text \<open>
  Memory: \<open>allocate\<close> is \<^verbatim>\<open>new std::uint8_t[n]\<close>, \<open>memcpy_in mem off src\<close> copies
  \<open>src\<close> into the array at offset \<open>off\<close>, \<open>memcpy_out mem off n\<close> copies \<open>n\<close>
  bytes out of it.
\<close>

definition allocate :: "nat \<Rightarrow> byte list" where
  "allocate n = replicate n 0"

definition memcpy_in :: "byte list \<Rightarrow> nat \<Rightarrow> byte list \<Rightarrow> error + byte list" where
  "memcpy_in mem off src =
     (if off + length src \<le> length mem
      then Inr (take off mem @ src @ drop (off + length src) mem)
      else Inl memory_fault)"

definition memcpy_out :: "byte list \<Rightarrow> nat \<Rightarrow> nat \<Rightarrow> error + byte list" where
  "memcpy_out mem off n =
     (if off + n \<le> length mem then Inr (take n (drop off mem)) else Inl memory_fault)"

text \<open>
  The constructors \<^verbatim>\<open>buffer(std::size_t size)\<close>, \<^verbatim>\<open>buffer()\<close> with the default
  size, and \<^verbatim>\<open>buffer(const void* data, std::size_t size)\<close>, which
  \<^verbatim>\<open>buffer(std::string&&)\<close> and \<^verbatim>\<open>buffer(std::vector<std::uint8_t>&&)\<close> call.
\<close>

definition buffer_sized :: "nat \<Rightarrow> error + buffer" where
  "buffer_sized n =
     (if n = 0 then Inl buffer_exception
      else Inr \<lparr>b_data = allocate n, b_capacity = n, b_read = 0, b_write = 0, b_full = False\<rparr>)"

definition buffer_default :: buffer where
  "buffer_default =
     \<lparr>b_data = allocate default_size, b_capacity = default_size, b_read = 0, b_write = 0, b_full = False\<rparr>"

definition buffer_of :: "byte list \<Rightarrow> buffer" where
  "buffer_of bytes =
     (if length bytes = 0 then buffer_default
      else \<lparr>b_data = bytes, b_capacity = length bytes, b_read = 0, b_write = 0, b_full = True\<rparr>)"

definition buffer_empty :: "buffer \<Rightarrow> bool" where
  "buffer_empty b \<longleftrightarrow> \<not> b_full b \<and> b_read b = b_write b"

definition buffer_size :: "buffer \<Rightarrow> nat" where
  "buffer_size b =
     (if b_full b then b_capacity b
      else if b_write b \<ge> b_read b then b_write b - b_read b
      else b_capacity b + b_write b - b_read b)"

definition buffer_space_remaining :: "buffer \<Rightarrow> nat" where
  "buffer_space_remaining b = b_capacity b - buffer_size b"

definition buffer_space_remaining_until_end :: "buffer \<Rightarrow> nat" where
  "buffer_space_remaining_until_end b =
     (if b_read b > b_write b then b_read b - b_write b else b_capacity b - b_write b)"

definition buffer_advance_write :: "nat \<Rightarrow> buffer \<Rightarrow> error + buffer" where
  "buffer_advance_write by b =
     (if by = 0 then Inr b
      else if b_full b \<or> buffer_space_remaining b < by then Inl buffer_exception
      else let w = b_write b + by;
               w' = (if w \<ge> b_capacity b then w - b_capacity b else w)
           in Inr (b\<lparr>b_write := w', b_full := (b_read b = w')\<rparr>))"

definition buffer_advance_read :: "nat \<Rightarrow> buffer \<Rightarrow> error + buffer" where
  "buffer_advance_read by b =
     (if by = 0 then Inr b
      else if by > buffer_size b then Inl buffer_exception
      else let r = b_read b + by;
               r' = (if r \<ge> b_capacity b then r - b_capacity b else r)
           in Inr (b\<lparr>b_read := r', b_full := False\<rparr>))"

text \<open>
  \<^verbatim>\<open>read_into\<close> copies \<open>n\<close> bytes from \<^verbatim>\<open>read_\<close> on. As in the source, the
  length of its first piece is \<^verbatim>\<open>space_remaining_until_end()\<close>, the distance that
  \<^verbatim>\<open>put\<close> uses for the write position.
\<close>

definition buffer_read_into :: "buffer \<Rightarrow> nat \<Rightarrow> error + byte list" where
  "buffer_read_into b n =
     (let first_write_max_size = buffer_space_remaining_until_end b
      in if first_write_max_size \<ge> n then memcpy_out (b_data b) (b_read b) n
         else bindE (memcpy_out (b_data b) (b_read b) first_write_max_size) (\<lambda>head.
              bindE (memcpy_out (b_data b) 0 (n - first_write_max_size)) (\<lambda>rest.
              Inr (head @ rest))))"

text \<open>
  The loop of \<^verbatim>\<open>resize\<close> that doubles the capacity until the data fits. It does not
  end from capacity 0 (a moved-from buffer).
\<close>

partial_function (option) buffer_grow :: "nat \<Rightarrow> nat \<Rightarrow> nat option" where
  "buffer_grow new_capacity needed =
     (if new_capacity < needed
      then buffer_grow ((2 * (if new_capacity > max_size div 2 then needed else new_capacity))
                 mod 2 ^ 64) needed
      else Some new_capacity)"

declare buffer_grow.simps [code]

definition buffer_resize :: "nat \<Rightarrow> buffer \<Rightarrow> error + buffer" where
  "buffer_resize to_fit b =
     (let current_size = buffer_size b
      in if max_size - to_fit \<le> current_size then Inl buffer_exception
         else case buffer_grow (b_capacity b) (current_size + to_fit) of
                None \<Rightarrow> Inl does_not_return
              | Some new_capacity \<Rightarrow>
                  bindE (buffer_read_into b current_size) (\<lambda>kept.
                  bindE (memcpy_in (allocate new_capacity) 0 kept) (\<lambda>new_data.
                  buffer_advance_write current_size
                    (b\<lparr>b_data := new_data, b_capacity := new_capacity,
                       b_read := 0, b_write := 0, b_full := False\<rparr>))))"

definition buffer_put :: "byte list \<Rightarrow> bool \<Rightarrow> buffer \<Rightarrow> error + buffer" where
  "buffer_put src allow_resize b0 =
     bindE (if length src > buffer_space_remaining b0
            then (if allow_resize then buffer_resize (length src) b0 else Inl buffer_exception)
            else Inr b0) (\<lambda>b.
     let first_write_max_size = buffer_space_remaining_until_end b
     in bindE (if first_write_max_size \<ge> length src
               then memcpy_in (b_data b) (b_write b) src
               else bindE (memcpy_in (b_data b) (b_write b) (take first_write_max_size src))
                          (\<lambda>mem. memcpy_in mem 0 (drop first_write_max_size src))) (\<lambda>mem.
        buffer_advance_write (length src) (b\<lparr>b_data := mem\<rparr>)))"

text \<open>\<^verbatim>\<open>view\<close>: one or two pieces of the array, each an offset and a size.\<close>

definition buffer_view :: "buffer \<Rightarrow> (nat \<times> nat) list" where
  "buffer_view b =
     (if b_write b \<ge> b_read b then [(b_read b, buffer_size b)]
      else [(b_read b, b_capacity b - b_read b), (0, b_write b)])"

definition buffer_consume :: "nat \<Rightarrow> buffer \<Rightarrow> error + buffer" where
  "buffer_consume amount b = (if amount > buffer_size b then Inl buffer_exception else buffer_advance_read amount b)"

text \<open>The loop of \<^verbatim>\<open>move_buffer\<close> over the views of the other buffer.\<close>

fun move_views :: "buffer \<Rightarrow> (nat \<times> nat) list \<Rightarrow> bool \<Rightarrow> buffer \<Rightarrow> nat \<Rightarrow> error + (buffer \<times> nat)" where
  "move_views other [] allow_resize b written = Inr (b, written)"
| "move_views other ((off, n) # views) allow_resize b written =
     (let write_size = (if allow_resize then n else min (buffer_space_remaining b) n)
      in bindE (memcpy_out (b_data other) off write_size) (\<lambda>src.
         bindE (buffer_put src allow_resize b) (\<lambda>b'.
         move_views other views allow_resize b' (written + write_size))))"

definition buffer_move_buffer :: "buffer \<Rightarrow> bool \<Rightarrow> buffer \<Rightarrow> error + (buffer \<times> buffer)" where
  "buffer_move_buffer other allow_resize b =
     bindE (move_views other (buffer_view other) allow_resize b 0) (\<lambda>(b', written).
     bindE (buffer_consume written other) (\<lambda>other'. Inr (b', other')))"

definition buffer_get :: "buffer \<Rightarrow> error + (byte \<times> buffer)" where
  "buffer_get b =
     (if buffer_empty b then Inl buffer_exception
      else bindE (memcpy_out (b_data b) (b_read b) 1) (\<lambda>next.
           bindE (buffer_advance_read 1 b) (\<lambda>b'. Inr (hd next, b'))))"

definition buffer_get_many :: "nat \<Rightarrow> buffer \<Rightarrow> error + (byte list \<times> buffer)" where
  "buffer_get_many amount b =
     (if amount > buffer_size b then Inl buffer_exception
      else bindE (buffer_read_into b amount) (\<lambda>output.
           bindE (buffer_advance_read amount b) (\<lambda>b'. Inr (output, b'))))"

text \<open>
  The loop of \<^verbatim>\<open>get_until\<close>. \<^verbatim>\<open>delim[delim_pos]\<close> at the end of the string is
  the terminating NUL.
\<close>

partial_function (option) buffer_get_until_loop ::
  "byte list \<Rightarrow> buffer \<Rightarrow> nat \<Rightarrow> byte list \<Rightarrow> (error + (byte list \<times> buffer)) option" where
  "buffer_get_until_loop delim b delim_pos output =
     (if buffer_empty b then Some (Inr (output, b))
      else case buffer_get b of
             Inl e \<Rightarrow> Some (Inl e)
           | Inr (next, b') \<Rightarrow>
               if next = (if delim_pos < length delim then delim ! delim_pos else 0) then
                 (if Suc delim_pos = length delim then Some (Inr (output, b'))
                  else buffer_get_until_loop delim b' (Suc delim_pos) output)
               else if delim_pos > 0 then
                 buffer_get_until_loop delim b' 0 (output @ take delim_pos delim @ [next])
               else
                 buffer_get_until_loop delim b' delim_pos (output @ [next]))"

declare buffer_get_until_loop.simps [code]

definition buffer_get_until :: "byte list \<Rightarrow> buffer \<Rightarrow> (error + (byte list \<times> buffer)) option" where
  "buffer_get_until delim b = buffer_get_until_loop delim b 0 []"

definition buffer_to_string :: "buffer \<Rightarrow> error + (byte list \<times> buffer)" where
  "buffer_to_string b = buffer_get_many (buffer_size b) b"

text \<open>\<^verbatim>\<open>put_iter\<close> is \<^verbatim>\<open>put\<close> with the bytes given by an iterator range.\<close>

definition buffer_put_iter :: "byte list \<Rightarrow> bool \<Rightarrow> buffer \<Rightarrow> error + buffer" where
  "buffer_put_iter src allow_resize b = buffer_put src allow_resize b"

definition buffer_shift :: "buffer \<Rightarrow> error + buffer" where
  "buffer_shift b =
     (if b_full b \<and> b_read b = 0 then Inr b
      else if b_write b > b_read b then
        (let n = b_write b - b_read b
         in bindE (memcpy_out (b_data b) (b_read b) n) (\<lambda>moved.
            bindE (memcpy_in (b_data b) 0 moved) (\<lambda>mem.
            Inr (b\<lparr>b_data := mem, b_read := 0, b_write := n\<rparr>))))
      else
        bindE (memcpy_out (b_data b) 0 (b_write b)) (\<lambda>temp.
        let first_write_size = b_capacity b - b_read b
        in bindE (memcpy_out (b_data b) (b_read b) first_write_size) (\<lambda>moved.
           bindE (memcpy_in (b_data b) 0 moved) (\<lambda>mem.
           bindE (memcpy_in mem first_write_size temp) (\<lambda>mem'.
           Inr (b\<lparr>b_data := mem', b_read := 0, b_write := buffer_size b\<rparr>))))))"

definition buffer_reserve :: "nat \<Rightarrow> buffer \<Rightarrow> error + (nat \<times> buffer)" where
  "buffer_reserve n b =
     (if n = 0 then Inl buffer_exception
      else if buffer_space_remaining_until_end b \<ge> n then Inr (b_write b, b)
      else if buffer_space_remaining b \<ge> n then
        bindE (buffer_shift b) (\<lambda>b'. Inr (b_write b', b'))
      else bindE (buffer_resize n b) (\<lambda>b'. Inr (b_write b', b')))"

definition buffer_commit :: "nat \<Rightarrow> buffer \<Rightarrow> error + buffer" where
  "buffer_commit n b = buffer_advance_write n b"

text \<open>The bytes that a reader of the views of a buffer sees.\<close>

fun read_views :: "buffer \<Rightarrow> (nat \<times> nat) list \<Rightarrow> error + byte list" where
  "read_views b [] = Inr []"
| "read_views b ((off, n) # views) =
     bindE (memcpy_out (b_data b) off n) (\<lambda>bytes.
     bindE (read_views b views) (\<lambda>rest. Inr (bytes @ rest)))"

subsection \<open>Byte strings\<close>

text \<open>
  \<^verbatim>\<open>util::bytes::insert<N>\<close> and \<^verbatim>\<open>util::bytes::extract<N>\<close> of
  \<^verbatim>\<open>util/bytes.h\<close>, least significant byte first. The first argument is \<open>N\<close>;
  \<open>extract_bytes\<close> carries the loop index and the result so far. The shifts of
  \<^verbatim>\<open>extract\<close> are those of a C \<^verbatim>\<open>int\<close>, so the model is for \<open>N \<le> 4\<close>, which
  covers the four length bytes of a frame.
\<close>

fun insert_bytes :: "nat \<Rightarrow> nat \<Rightarrow> buffer \<Rightarrow> error + buffer" where
  "insert_bytes 0 byte_string dest = Inr dest"
| "insert_bytes (Suc n) byte_string dest =
     bindE (buffer_put [of_nat (byte_string mod 256)] True dest)
           (insert_bytes n (byte_string div 256))"

fun extract_bytes :: "nat \<Rightarrow> nat \<Rightarrow> nat \<Rightarrow> buffer \<Rightarrow> error + (nat \<times> buffer)" where
  "extract_bytes 0 i result src = Inr (result, src)"
| "extract_bytes (Suc n) i result src =
     bindE (buffer_get src) (\<lambda>(byte, src').
     extract_bytes n (Suc i) (or result (unat byte * 2 ^ (8 * i))) src')"

subsection \<open>Messages and the message service\<close>

text \<open>
  Embedding of the reading and writing paths of
  \<^verbatim>\<open>net/proto/async_message_service.cc\<close>, of \<^verbatim>\<open>Socket::Send\<close> and
  \<^verbatim>\<open>Socket::Receive\<close> in \<^verbatim>\<open>net/socket.cc\<close>, and of the Write message of
  \<^verbatim>\<open>net/proto/messages.cc\<close>. An \<^verbatim>\<open>Opcode\<close> is its byte. The record
  \<open>AsyncMessageService\<close> holds the members of the service together with the two buffers
  of its socket; \<open>opcode_now\<close> and \<open>body_now\<close> are \<^verbatim>\<open>opcode_\<close> and \<^verbatim>\<open>body_\<close>,
  and \<open>transfer_file\<close> is the content of the staging file of a file transfer (creating it
  succeeds). A \<^verbatim>\<open>std::string\<close> in a message is the list of its bytes.
\<close>

record Message =
  opcode :: byte
  body :: buffer

definition kOk :: byte where "kOk = 0"
definition kResponse :: byte where "kResponse = 3"
definition kFileTransfer :: byte where "kFileTransfer = 4"
definition kTransmitData :: byte where "kTransmitData = 5"
definition kFinished :: byte where "kFinished = 6"
definition kWrite :: byte where "kWrite = 9"

definition kOpcodeLength :: nat where "kOpcodeLength = 1"
definition kBodySizeLength :: nat where "kBodySizeLength = 4"
definition kMaxBodySize :: nat where "kMaxBodySize = 2 ^ 32 - 1"
definition kStringDelimiter :: "byte list" where "kStringDelimiter = [13, 10]"

record AsyncMessageService =
  socket_input :: buffer
  socket_output :: buffer
  compound_message_parent :: "Message option"
  transfer_file :: "byte list"
  finished_compound :: bool
  opcode_now :: "byte option"
  expected :: "nat option"
  body_now :: buffer
  attempting_to_send :: nat

definition PutMessageInOutputBuffer :: "Message \<Rightarrow> AsyncMessageService \<Rightarrow> error + AsyncMessageService" where
  "PutMessageInOutputBuffer msg s =
     (let body_size = buffer_size (body msg)
      in if body_size > kMaxBodySize then Inl (Error ''Body size exceeds maximum'')
         else bindE (buffer_put [opcode msg] True (socket_output s)) (\<lambda>out1.
              bindE (insert_bytes kBodySizeLength (body_size mod 2 ^ 32) out1) (\<lambda>out2.
              bindE (buffer_move_buffer (body msg) True out2) (\<lambda>(out3, moved).
              Inr (s\<lparr>socket_output := out3,
                     attempting_to_send :=
                       attempting_to_send s + kOpcodeLength + kBodySizeLength + body_size\<rparr>)))))"

text \<open>
  \<^verbatim>\<open>Socket::Send\<close> hands every view of the output buffer to \<^verbatim>\<open>write\<close> and consumes
  what was sent; the transport takes each view whole. \<^verbatim>\<open>Socket::Receive(bytes)\<close>
  reserves \<open>bytes\<close> bytes in the input buffer, lets \<^verbatim>\<open>read\<close> fill them with what has
  arrived, at most \<open>bytes\<close>, and commits the number received.
\<close>

definition Socket_Send :: "AsyncMessageService \<Rightarrow> error + (byte list \<times> AsyncMessageService)" where
  "Socket_Send s =
     bindE (read_views (socket_output s) (buffer_view (socket_output s))) (\<lambda>sent.
     bindE (buffer_consume (length sent) (socket_output s)) (\<lambda>out'.
     Inr (sent, s\<lparr>socket_output := out'\<rparr>)))"

definition Socket_Receive :: "nat \<Rightarrow> byte list \<Rightarrow> AsyncMessageService \<Rightarrow> error + AsyncMessageService" where
  "Socket_Receive bytes arrived s =
     bindE (buffer_reserve bytes (socket_input s)) (\<lambda>(read_buffer, inp).
     let received = take bytes arrived
     in if received = [] then Inr (s\<lparr>socket_input := inp\<rparr>)
        else bindE (memcpy_in (b_data inp) read_buffer received) (\<lambda>mem.
             bindE (buffer_commit (length received) (inp\<lparr>b_data := mem\<rparr>)) (\<lambda>inp'.
             Inr (s\<lparr>socket_input := inp'\<rparr>))))"

definition ResetCurrentMessage :: "AsyncMessageService \<Rightarrow> AsyncMessageService" where
  "ResetCurrentMessage s = s\<lparr>opcode_now := None, expected := None, body_now := buffer_default\<rparr>"

definition ResetCompoundMessage :: "AsyncMessageService \<Rightarrow> AsyncMessageService" where
  "ResetCompoundMessage s =
     ResetCurrentMessage (s\<lparr>compound_message_parent := None, finished_compound := False\<rparr>)"

definition FinishedReadingCurrentMessage :: "AsyncMessageService \<Rightarrow> bool" where
  "FinishedReadingCurrentMessage s \<longleftrightarrow>
     opcode_now s \<noteq> None \<and> expected s \<noteq> None \<and> expected s = Some (buffer_size (body_now s))"

definition FinishedReadingCompoundMessage :: "AsyncMessageService \<Rightarrow> bool" where
  "FinishedReadingCompoundMessage s \<longleftrightarrow>
     (if compound_message_parent s \<noteq> None then finished_compound s else False)"

definition FinishedReading :: "AsyncMessageService \<Rightarrow> bool" where
  "FinishedReading s \<longleftrightarrow> FinishedReadingCompoundMessage s \<or> FinishedReadingCurrentMessage s"

definition OpcodeStartsACompoundMessage :: "byte \<Rightarrow> bool" where
  "OpcodeStartsACompoundMessage opc \<longleftrightarrow> opc = kFileTransfer"

definition InACompoundMessage :: "AsyncMessageService \<Rightarrow> bool" where
  "InACompoundMessage s \<longleftrightarrow> compound_message_parent s \<noteq> None"

text \<open>
  The three parts of \<^verbatim>\<open>ProcessBytesIntoCurrentMessage\<close>, in order: opcode, body size,
  body. The first two return the bytes still available, or \<open>None\<close> where the source
  returns \<^verbatim>\<open>false\<close>.
\<close>

definition read_opcode :: "nat \<Rightarrow> AsyncMessageService \<Rightarrow> error + (nat option \<times> AsyncMessageService)" where
  "read_opcode bytes_available s =
     (if opcode_now s = None then
        (if bytes_available < kOpcodeLength then Inr (None, s)
         else bindE (buffer_get (socket_input s)) (\<lambda>(opc, inp).
              Inr (Some (bytes_available - kOpcodeLength),
                   s\<lparr>socket_input := inp, opcode_now := Some opc\<rparr>)))
      else Inr (Some bytes_available, s))"

definition read_body_size :: "nat \<Rightarrow> AsyncMessageService \<Rightarrow> error + (nat option \<times> AsyncMessageService)" where
  "read_body_size bytes_available s =
     (if expected s = None then
        (if bytes_available < kBodySizeLength then Inr (None, s)
         else bindE (extract_bytes kBodySizeLength 0 0 (socket_input s)) (\<lambda>(len, inp).
              bindE (if len \<noteq> 0 then map_sum id snd (buffer_reserve len (body_now s))
                     else Inr (body_now s)) (\<lambda>bdy.
              Inr (Some (bytes_available - kBodySizeLength),
                   s\<lparr>socket_input := inp, expected := Some len, body_now := bdy\<rparr>))))
      else Inr (Some bytes_available, s))"

definition read_body :: "nat \<Rightarrow> AsyncMessageService \<Rightarrow> error + AsyncMessageService" where
  "read_body bytes_available s =
     (case expected s of
        None \<Rightarrow> Inl bad_optional_access
      | Some expect \<Rightarrow>
          let currently_have = buffer_size (body_now s)
          in if expect > currently_have then
               (let bytes_to_use = min bytes_available (expect - currently_have)
                in bindE (buffer_get_many bytes_to_use (socket_input s)) (\<lambda>(bytes, inp).
                   bindE (buffer_put_iter bytes False (body_now s)) (\<lambda>bdy.
                   Inr (s\<lparr>socket_input := inp, body_now := bdy\<rparr>))))
             else Inr s)"

definition ProcessBytesIntoCurrentMessage :: "nat \<Rightarrow> AsyncMessageService \<Rightarrow> error + (bool \<times> AsyncMessageService)" where
  "ProcessBytesIntoCurrentMessage bytes_available s =
     bindE (read_opcode bytes_available s) (\<lambda>(left1, s1).
     case left1 of
       None \<Rightarrow> Inr (False, s1)
     | Some available1 \<Rightarrow>
         bindE (read_body_size available1 s1) (\<lambda>(left2, s2).
         case left2 of
           None \<Rightarrow> Inr (False, s2)
         | Some available2 \<Rightarrow>
             bindE (read_body available2 s2) (\<lambda>s3. Inr (True, s3))))"

definition HandleCompoundMessageHeader :: "AsyncMessageService \<Rightarrow> error + AsyncMessageService" where
  "HandleCompoundMessageHeader s =
     (case opcode_now s of
        None \<Rightarrow> Inl bad_optional_access
      | Some opc \<Rightarrow>
          let s' = s\<lparr>compound_message_parent := Some \<lparr>opcode = opc, body = body_now s\<rparr>\<rparr>
          in if opc = kFileTransfer then Inr (s'\<lparr>transfer_file := []\<rparr>)
             else Inl (Error ''Invalid compound message opcode''))"

definition HandleCompoundMessageFrame :: "AsyncMessageService \<Rightarrow> error + AsyncMessageService" where
  "HandleCompoundMessageFrame s =
     (if \<not> InACompoundMessage s \<or> \<not> FinishedReadingCurrentMessage s then
        Inl (Error ''Cannot execute a message that has not been completely read'')
      else case (compound_message_parent s, opcode_now s) of
             (Some parent, Some opc) \<Rightarrow>
               if opcode parent = kFileTransfer then
                 (if opc = kTransmitData then
                    bindE (read_views (body_now s) (buffer_view (body_now s))) (\<lambda>chunk.
                    Inr (s\<lparr>transfer_file := transfer_file s @ chunk\<rparr>))
                  else if opc = kFinished then Inr (s\<lparr>finished_compound := True\<rparr>)
                  else Inl (Error ''Invalid file transfer message frame''))
               else Inl (Error ''Invalid compound message opcode'')
           | _ \<Rightarrow> Inl bad_optional_access)"

definition ProcessBytes :: "nat \<Rightarrow> AsyncMessageService \<Rightarrow> error + (bool \<times> AsyncMessageService)" where
  "ProcessBytes bytes_available s =
     bindE (ProcessBytesIntoCurrentMessage bytes_available s) (\<lambda>(res, s1).
     if FinishedReadingCurrentMessage s1 then
       (case opcode_now s1 of
          None \<Rightarrow> Inl bad_optional_access
        | Some opc \<Rightarrow>
            if OpcodeStartsACompoundMessage opc then
              bindE (HandleCompoundMessageHeader s1) (\<lambda>s2. Inr (res, ResetCurrentMessage s2))
            else if InACompoundMessage s1 then
              bindE (HandleCompoundMessageFrame s1) (\<lambda>s2. Inr (res, ResetCurrentMessage s2))
            else Inr (res, s1))
     else Inr (res, s1))"

partial_function (option) ProcessAllBytes_loop ::
  "bool \<Rightarrow> AsyncMessageService \<Rightarrow> (error + AsyncMessageService) option" where
  "ProcessAllBytes_loop progress_can_be_made s =
     (if progress_can_be_made \<and> \<not> FinishedReading s then
        (let bytes_available = buffer_size (socket_input s)
         in if bytes_available = 0 then Some (Inr s)
            else case ProcessBytes bytes_available s of
                   Inl e \<Rightarrow> Some (Inl e)
                 | Inr (res, s') \<Rightarrow> ProcessAllBytes_loop res s')
      else Some (Inr s))"

declare ProcessAllBytes_loop.simps [code]

definition ProcessAllBytes :: "AsyncMessageService \<Rightarrow> (error + AsyncMessageService) option" where
  "ProcessAllBytes s = ProcessAllBytes_loop True s"

definition GetReturnedMessage :: "AsyncMessageService \<Rightarrow> error + Message" where
  "GetReturnedMessage s =
     (case compound_message_parent s of
        Some parent \<Rightarrow> Inr parent
      | None \<Rightarrow>
          (case opcode_now s of
             None \<Rightarrow> Inl bad_optional_access
           | Some opc \<Rightarrow> Inr \<lparr>opcode = opc, body = body_now s\<rparr>))"

text \<open>
  \<^verbatim>\<open>ReadMessage\<close> and \<^verbatim>\<open>ReceiveBytes\<close> with their polling loop. The first argument
  lists what each successive \<^verbatim>\<open>Socket::Receive\<close> finds on the socket. The read ends
  with the message handed to the callback, with an error, or is still waiting when the list
  is used up.
\<close>

datatype 'a outcome = Returned 'a | Failed error | Pending

fun ReceiveBytes :: "byte list list \<Rightarrow> AsyncMessageService \<Rightarrow> (Message \<times> AsyncMessageService) outcome option" where
  "ReceiveBytes [] s =
     (if FinishedReading s then
        Some (case GetReturnedMessage s of Inl e \<Rightarrow> Failed e | Inr m \<Rightarrow> Returned (m, s))
      else Some Pending)"
| "ReceiveBytes (arrived # later) s =
     (if FinishedReading s then
        Some (case GetReturnedMessage s of Inl e \<Rightarrow> Failed e | Inr m \<Rightarrow> Returned (m, s))
      else case Socket_Receive 1024 arrived s of
             Inl e \<Rightarrow> Some (Failed e)
           | Inr s1 \<Rightarrow>
               (case ProcessAllBytes s1 of
                  None \<Rightarrow> None
                | Some (Inl e) \<Rightarrow> Some (Failed e)
                | Some (Inr s2) \<Rightarrow> ReceiveBytes later s2))"

definition ReadMessage :: "byte list list \<Rightarrow> AsyncMessageService \<Rightarrow> (Message \<times> AsyncMessageService) outcome option" where
  "ReadMessage arrivals s =
     (case ProcessAllBytes (ResetCompoundMessage s) of
        None \<Rightarrow> None
      | Some (Inl e) \<Rightarrow> Some (Failed e)
      | Some (Inr s1) \<Rightarrow> ReceiveBytes arrivals s1)"

text \<open>A service on a socket that has just been connected.\<close>

definition connected :: AsyncMessageService where
  "connected =
     \<lparr>socket_input = buffer_default, socket_output = buffer_default, compound_message_parent = None,
      transfer_file = [], finished_compound = False, opcode_now = None, expected = None,
      body_now = buffer_default, attempting_to_send = 0\<rparr>"

text \<open>\<^verbatim>\<open>WriteMessage::ToMessage\<close> and \<^verbatim>\<open>Message::ToWrite\<close>.\<close>

record WriteMessage =
  wm_file_name :: "byte list"
  wm_line :: "byte list"

definition WriteMessage_ToMessage :: "WriteMessage \<Rightarrow> error + Message" where
  "WriteMessage_ToMessage w =
     bindE (buffer_put_iter (wm_file_name w) True buffer_default) (\<lambda>b1.
     bindE (buffer_put kStringDelimiter True b1) (\<lambda>b2.
     bindE (buffer_put_iter (wm_line w) True b2) (\<lambda>b3.
     Inr \<lparr>opcode = kWrite, body = b3\<rparr>)))"

definition Message_ToWrite :: "Message \<Rightarrow> (error + WriteMessage) option" where
  "Message_ToWrite msg =
     (if opcode msg \<noteq> kWrite then Some (Inl (Error ''Bad opcode for conversion''))
      else case buffer_get_until kStringDelimiter (body msg) of
             None \<Rightarrow> None
           | Some (Inl e) \<Rightarrow> Some (Inl e)
           | Some (Inr (file_name, b1)) \<Rightarrow>
               Some (bindE (buffer_to_string b1) (\<lambda>(line, b2).
                     Inr \<lparr>wm_file_name = file_name, wm_line = line\<rparr>)))"

definition write_round_trip :: "WriteMessage \<Rightarrow> (error + WriteMessage) option" where
  "write_round_trip w =
     (case WriteMessage_ToMessage w of Inl e \<Rightarrow> Some (Inl e) | Inr msg \<Rightarrow> Message_ToWrite msg)"

definition bytes_of :: "string \<Rightarrow> byte list" where
  "bytes_of str = map of_char str"

text \<open>
  One frame from a fresh sender to a fresh receiver: the sender puts the message in its
  output buffer and sends it, the receiver finds the whole frame at its first
  \<^verbatim>\<open>Socket::Receive\<close>, and the body of the message it returns is read out with
  \<^verbatim>\<open>to_string\<close>, as the conversions of \<^verbatim>\<open>messages.cc\<close> do.
\<close>

definition transmit :: "Message \<Rightarrow> (byte \<times> byte list) outcome option" where
  "transmit msg =
     (case bindE (PutMessageInOutputBuffer msg connected) Socket_Send of
        Inl e \<Rightarrow> Some (Failed e)
      | Inr (wire, sender) \<Rightarrow>
          (case ReadMessage [wire] connected of
             None \<Rightarrow> None
           | Some Pending \<Rightarrow> Some Pending
           | Some (Failed e) \<Rightarrow> Some (Failed e)
           | Some (Returned (m, receiver)) \<Rightarrow>
               (case buffer_to_string (body m) of
                  Inl e \<Rightarrow> Some (Failed e)
                | Inr (bytes, b) \<Rightarrow> Some (Returned (opcode m, bytes)))))"

text \<open>
  The example of the frame round trip: a Response whose body is 510 times the letter
  \<open>A\<close>, the 515 bytes of its frame, and the states that the sender and the receiver go
  through.
\<close>

definition sample :: Message where
  "sample = \<lparr>opcode = kResponse, body = buffer_of (replicate 510 65)\<rparr>"

definition wire :: "byte list" where
  "wire = [3, 254, 1, 0, 0] @ replicate 510 65"

definition sent :: AsyncMessageService where
  "sent = connected\<lparr>socket_output :=
            \<lparr>b_data = wire @ replicate 509 0,
             b_capacity = 1024, b_read = 0, b_write = 515, b_full = False\<rparr>,
          attempting_to_send := 515\<rparr>"

definition arrived :: AsyncMessageService where
  "arrived = connected\<lparr>socket_input :=
       \<lparr>b_data = wire @ replicate 509 0,
        b_capacity = 1024, b_read = 0, b_write = 515, b_full = False\<rparr>\<rparr>"

definition garbled :: "byte list" where
  "garbled = replicate 509 65 @ [3]"

definition decoded :: AsyncMessageService where
  "decoded = connected\<lparr>socket_input :=
       \<lparr>b_data = wire @ replicate 509 0,
        b_capacity = 1024, b_read = 515, b_write = 515, b_full = False\<rparr>,
      opcode_now := Some 3, expected := Some 510,
      body_now := \<lparr>b_data = garbled @ replicate 514 0,
        b_capacity = 1024, b_read = 0, b_write = 510, b_full = False\<rparr>\<rparr>"

text \<open>The body of the Write message for the file name \<open>a\<close>, CR and the line \<open>x\<close>.\<close>

definition written :: buffer where
  "written = \<lparr>b_data = [97, 13, 13, 10, 120] @ replicate 1019 0, b_capacity = 1024,
               b_read = 0, b_write = 5, b_full = False\<rparr>"

section \<open>Paths\<close>

text \<open>
  Embedding of \<^verbatim>\<open>util/path.{h,cc}\<close>. A path is its string \<^verbatim>\<open>path_\<close>: the other
  member, \<^verbatim>\<open>prefix_length_\<close>, is 0 in every path (the constructor sets it and nothing
  changes it), and \<^verbatim>\<open>root_name_length()\<close> returns 0; both are kept as constants so that
  the definitions read like the source. \<open>path_of\<close> is the constructor from a string. An
  iterator into the string is an index, and a \<^verbatim>\<open>path::iterator\<close> is the path with the
  index \<^verbatim>\<open>iter_\<close>; its \<^verbatim>\<open>current_\<close> is a function of the two, \<open>current\<close>.
  \<open>char_at\<close> reads a character of a \<^verbatim>\<open>std::string\<close>, with the terminating NUL at the
  end. Where the source writes \<^verbatim>\<open>it != last_\<close> for an iterator that never passes the
  end, a loop of the model tests \<open>it < it_last p\<close>.
\<close>

type_synonym path = string

definition preferred_separator :: char where
  "preferred_separator = CHR ''/''"

definition prefix_length :: nat where
  "prefix_length = 0"

definition root_name_length :: nat where
  "root_name_length = 0"

definition char_at :: "string \<Rightarrow> nat \<Rightarrow> char" where
  "char_at str i = (if i < length str then str ! i else CHR 0x00)"

text \<open>
  \<^verbatim>\<open>process_assigned_path\<close>: \<^verbatim>\<open>std::unique\<close> with the predicate "both are the
  separator", from the start of the string or after a leading double separator.
\<close>

fun unique_separators :: "string \<Rightarrow> string" where
  "unique_separators (c # d # cs) =
     (if c = d \<and> c = preferred_separator then unique_separators (d # cs)
      else c # unique_separators (d # cs))"
| "unique_separators cs = cs"

definition process_assigned_path :: "string \<Rightarrow> path" where
  "process_assigned_path p =
     (let start =
        (if length p > prefix_length + 2 \<and>
            char_at p prefix_length = preferred_separator \<and>
            char_at p (prefix_length + 1) = preferred_separator \<and>
            char_at p (prefix_length + 2) \<noteq> preferred_separator
         then prefix_length + 2 else prefix_length)
      in take start p @ unique_separators (drop start p))"

definition path_of :: "string \<Rightarrow> path" where
  "path_of str = process_assigned_path str"

definition has_root_directory :: "path \<Rightarrow> bool" where
  "has_root_directory p =
     (let root_length = prefix_length + root_name_length
      in length p > root_length \<and> char_at p root_length = preferred_separator)"

definition is_absolute :: "path \<Rightarrow> bool" where
  "is_absolute p = has_root_directory p"

definition root_path_length :: "path \<Rightarrow> nat" where
  "root_path_length p =
     prefix_length + root_name_length + (if has_root_directory p then 1 else 0)"

definition has_relative_path :: "path \<Rightarrow> bool" where
  "has_relative_path p \<longleftrightarrow> root_path_length p < length p"

definition root_name :: "path \<Rightarrow> path" where
  "root_name p = path_of (take root_name_length (drop prefix_length p))"

definition has_root_name :: "path \<Rightarrow> bool" where
  "has_root_name p \<longleftrightarrow> root_name_length > 0"

definition root_directory :: "path \<Rightarrow> path" where
  "root_directory p = (if has_root_directory p then path_of [preferred_separator] else [])"

definition root_path :: "path \<Rightarrow> path" where
  "root_path p = path_of (root_name p @ root_directory p)"

subsection \<open>The iterator\<close>

definition it_first :: "path \<Rightarrow> nat" where "it_first p = 0"
definition it_last :: "path \<Rightarrow> nat" where "it_last p = length p"
definition it_prefix :: "path \<Rightarrow> nat" where "it_prefix p = it_first p + prefix_length"
definition it_root :: "path \<Rightarrow> nat" where
  "it_root p = (if has_root_directory p then it_first p + (prefix_length + root_name_length)
                else it_last p)"

text \<open>
  \<^verbatim>\<open>std::find\<close> for the separator from an index on, the loop that skips separators,
  and \<^verbatim>\<open>iterator::increment\<close>. In the source the test of the second branch,
  \<^verbatim>\<open>*it++ == preferred_separator\<close>, moves the iterator even when it fails, and
  \<^verbatim>\<open>(*it + 1)\<close> adds one to the character.
\<close>

definition find_separator :: "path \<Rightarrow> nat \<Rightarrow> nat" where
  "find_separator p i = i + length (takeWhile (\<lambda>c. c \<noteq> preferred_separator) (drop i p))"

definition skip_separators :: "path \<Rightarrow> nat \<Rightarrow> nat" where
  "skip_separators p i = i + length (takeWhile (\<lambda>c. c = preferred_separator) (drop i p))"

definition increment :: "path \<Rightarrow> nat \<Rightarrow> nat" where
  "increment p pos =
     (let from_start = (pos = it_first p \<or> pos = it_prefix p)
      in if pos \<noteq> it_last p then
           (if from_start \<and> pos = it_first p \<and> it_prefix p > it_first p then it_prefix p
            else let it = pos + 1
                 in if char_at p pos = preferred_separator then
                      (if it \<noteq> it_last p \<and> char_at p it = preferred_separator then
                         (if from_start \<and>
                             \<not> (it + 1 \<noteq> it_last p \<and>
                                of_char (char_at p it) + (1::int) = of_char preferred_separator)
                          then find_separator p it
                          else skip_separators p it)
                       else it)
                    else if from_start \<and> it \<noteq> it_last p \<and> char_at p it = CHR '':'' then it + 1
                    else find_separator p it)
         else pos)"

text \<open>
  \<^verbatim>\<open>iterator::decrement\<close>; \<open>rfind_separator\<close> is the \<^verbatim>\<open>std::find\<close> over reverse
  iterators, which ends after the last separator before the index, or at the start.
\<close>

definition rfind_separator :: "path \<Rightarrow> nat \<Rightarrow> nat" where
  "rfind_separator p i =
     i - length (takeWhile (\<lambda>c. c \<noteq> preferred_separator) (rev (take i p)))"

definition decrement :: "path \<Rightarrow> nat \<Rightarrow> nat" where
  "decrement p pos =
     (if pos \<noteq> it_first p then
        (let it0 = pos - 1;
             it1 = (if it0 \<noteq> it_root p \<and> (pos \<noteq> it_last p \<or> char_at p it0 \<noteq> preferred_separator)
                    then rfind_separator p it0 else it0)
         in if it1 - it_first p = 2 \<and> char_at p 0 = preferred_separator \<and>
               char_at p 1 = preferred_separator
            then it1 - 2 else it1)
      else pos)"

text \<open>\<^verbatim>\<open>iterator::update_current\<close>.\<close>

definition current :: "path \<Rightarrow> nat \<Rightarrow> path" where
  "current p iter =
     (if iter = it_last p \<or>
         (iter \<noteq> it_first p \<and> iter \<noteq> it_last p \<and>
          (char_at p iter = preferred_separator \<and> iter \<noteq> it_root p) \<and>
          iter + 1 = it_last p)
      then []
      else path_of (take (increment p iter - iter) (drop iter p)))"

text \<open>
  \<^verbatim>\<open>iterator::operator++\<close>: \<^verbatim>\<open>increment\<close>, then the loop \<open>skip_inner\<close> over
  separators that are neither the root nor the last character. \<open>names_from\<close> lists what a
  loop from an iterator to \<^verbatim>\<open>end()\<close> sees, \<open>names\<close> what
  \<^verbatim>\<open>for (auto name : *this)\<close> sees.
\<close>

function skip_inner :: "path \<Rightarrow> nat \<Rightarrow> nat" where
  "skip_inner p iter =
     (if iter < it_last p \<and> iter \<noteq> it_root p \<and> char_at p iter = preferred_separator \<and>
         iter + 1 \<noteq> it_last p
      then skip_inner p (iter + 1) else iter)"
  by pat_completeness auto
termination
  by (relation "measure (\<lambda>(p, iter). length p - iter)") (auto simp: it_last_def)

declare skip_inner.simps [simp del]

definition advance :: "path \<Rightarrow> nat \<Rightarrow> nat" where
  "advance p iter = skip_inner p (increment p iter)"

lemma skip_inner_ge: "iter \<le> skip_inner p iter"
proof (induction p iter rule: skip_inner.induct)
  case (1 p iter)
  then show ?case by (subst skip_inner.simps) (auto simp: Suc_leD)
qed

lemma increment_gt: "pos < length p \<Longrightarrow> pos < increment p pos"
  by (auto simp: increment_def Let_def it_last_def it_first_def it_prefix_def prefix_length_def
      find_separator_def skip_separators_def)

lemma advance_gt: "pos < length p \<Longrightarrow> pos < advance p pos"
  using skip_inner_ge [of "increment p pos" p] increment_gt [of pos p]
  by (simp add: advance_def)

function names_from :: "path \<Rightarrow> nat \<Rightarrow> path list" where
  "names_from p iter =
     (if iter < it_last p then current p iter # names_from p (advance p iter) else [])"
  by pat_completeness auto
termination
  by (relation "measure (\<lambda>(p, iter). length p - iter)")
     (auto simp: it_last_def intro: diff_less_mono2 advance_gt)

declare names_from.simps [simp del]

definition names :: "path \<Rightarrow> path list" where
  "names p = names_from p (it_first p)"

subsection \<open>Comparison\<close>

text \<open>
  \<^verbatim>\<open>path::compare\<close> and the operators \<^verbatim>\<open>==\<close> built on it. The root names are
  empty, so their comparison is 0. After the common prefix, the source tests
  \<^verbatim>\<open>it2 == path_.end()\<close>, an iterator of the other string against the end of this
  one: the two belong to different strings and are never equal, so the test is false.
  \<^verbatim>\<open>char\<close> is signed.
\<close>

definition char_less :: "char \<Rightarrow> char \<Rightarrow> bool" where
  "char_less c d \<longleftrightarrow> sint (of_char c :: 8 word) < sint (of_char d :: 8 word)"

function common_prefix :: "string \<Rightarrow> string \<Rightarrow> nat \<Rightarrow> nat \<Rightarrow> nat \<times> nat" where
  "common_prefix a b it1 it2 =
     (if it1 < length a \<and> it2 < length b \<and> a ! it1 = b ! it2
      then common_prefix a b (it1 + 1) (it2 + 1) else (it1, it2))"
  by pat_completeness auto
termination
  by (relation "measure (\<lambda>(a, b, it1, it2). length a - it1)") auto

declare common_prefix.simps [simp del]

definition compare :: "path \<Rightarrow> path \<Rightarrow> int" where
  "compare p rhs =
     (let hrd1 = has_root_directory p; hrd2 = has_root_directory rhs
      in if hrd1 \<noteq> hrd2 then (if hrd1 then 1 else - 1)
         else let rnl = root_name_length + (if hrd1 then 1 else 0);
                  (it1, it2) = common_prefix p rhs rnl rnl
              in if it1 = length p then (if it2 = length rhs then 0 else - 1)
                 else if char_at p it1 = preferred_separator then - 1
                 else if char_at rhs it2 = preferred_separator then 1
                 else if char_less (char_at p it1) (char_at rhs it2) then - 1 else 1)"

definition path_eq :: "path \<Rightarrow> path \<Rightarrow> bool" where
  "path_eq p rhs \<longleftrightarrow> compare p rhs = 0"

definition path_eq_string :: "path \<Rightarrow> string \<Rightarrow> bool" where
  "path_eq_string p str \<longleftrightarrow> compare p (path_of str) = 0"

subsection \<open>Modifiers\<close>

text \<open>
  \<^verbatim>\<open>filename\<close>, \<^verbatim>\<open>has_filename\<close>, \<^verbatim>\<open>remove_filename\<close> and
  \<^verbatim>\<open>operator/=\<close>, for a path (\<open>append_path\<close>) and for a string
  (\<open>append_string\<close>, which is also \<^verbatim>\<open>operator/\<close> of a path and a string).
  \<open>append_names\<close> is the loop at the end of \<^verbatim>\<open>operator/=\<close>.
\<close>

definition filename :: "path \<Rightarrow> path" where
  "filename p = (if \<not> has_relative_path p then [] else current p (decrement p (it_last p)))"

definition has_filename :: "path \<Rightarrow> bool" where
  "has_filename p \<longleftrightarrow> has_relative_path p \<and> filename p \<noteq> []"

definition remove_filename :: "path \<Rightarrow> path" where
  "remove_filename p = (if has_filename p then take (length p - length (filename p)) p else p)"

fun append_names :: "path \<Rightarrow> bool \<Rightarrow> path list \<Rightarrow> path" where
  "append_names p first [] = p"
| "append_names p first (name # rest) =
     append_names
       ((if \<not> first \<and> \<not> (p \<noteq> [] \<and> last p = preferred_separator)
         then p @ [preferred_separator] else p) @ name)
       False rest"

definition append_path :: "path \<Rightarrow> path \<Rightarrow> path" where
  "append_path p rhs =
     (if rhs = [] then
        (if p \<noteq> [] \<and> last p \<noteq> preferred_separator \<and> last p \<noteq> CHR '':''
         then p @ [preferred_separator] else p)
      else if (is_absolute rhs \<and> (p \<noteq> root_name p \<or> rhs \<noteq> [preferred_separator])) \<or>
              (has_root_name rhs \<and> \<not> path_eq (root_name rhs) (root_name p)) then rhs
      else let p1 = (if has_root_directory rhs then root_name p
                     else if (\<not> has_root_directory p \<and> is_absolute p) \<or> has_filename p
                          then p @ [preferred_separator] else p)
           in append_names p1 True
                (if has_root_name rhs then names_from rhs (advance rhs (it_first rhs))
                 else names rhs))"

definition append_string :: "path \<Rightarrow> string \<Rightarrow> path" where
  "append_string p str = append_path p (path_of str)"

subsection \<open>Normal form and relative path\<close>

text \<open>
  \<^verbatim>\<open>lexically_normal\<close> with its loop over the names, and \<^verbatim>\<open>lexically_relative\<close>.
  In the first loop of \<^verbatim>\<open>lexically_relative\<close> the source tests
  \<^verbatim>\<open>me != base.end()\<close>, again iterators of two strings, which is true; the loop
  \<open>skip_equal\<close> runs while the names agree, also past the end of \<open>base\<close>, where the
  current name is empty.
\<close>

fun normalize_names :: "path \<Rightarrow> path \<Rightarrow> bool \<Rightarrow> path list \<Rightarrow> path" where
  "normalize_names p normalized last_dot_dot [] = normalized"
| "normalize_names p normalized last_dot_dot (name # rest) =
     (if path_eq_string name ''.'' then
        normalize_names p (append_string normalized '''') last_dot_dot rest
      else if path_eq_string name ''..'' \<and> normalized \<noteq> [] \<and>
              path_eq normalized (root_path p) then
        normalize_names p normalized last_dot_dot rest
      else if path_eq_string name ''..'' \<and> normalized \<noteq> [] \<and>
              \<not> path_eq_string (current normalized (decrement normalized (it_last normalized))) ''..'' then
        normalize_names p
          (remove_filename (if last normalized = preferred_separator then butlast normalized
                            else normalized))
          last_dot_dot rest
      else
        normalize_names p
          (if \<not> (name = [] \<and> last_dot_dot) then append_path normalized name else normalized)
          (path_eq_string name ''..'') rest)"

definition lexically_normal :: "path \<Rightarrow> path" where
  "lexically_normal p =
     (let normalized = normalize_names p [] False (names p)
      in if normalized = [] then path_of ''.'' else normalized)"

function skip_equal :: "path \<Rightarrow> path \<Rightarrow> nat \<Rightarrow> nat \<Rightarrow> nat \<times> nat" where
  "skip_equal p base me them =
     (if me < it_last p \<and> path_eq (current p me) (current base them)
      then skip_equal p base (advance p me) (advance base them) else (me, them))"
  by pat_completeness auto
termination
  by (relation "measure (\<lambda>(p, base, me, them). length p - me)")
     (auto simp: it_last_def intro: diff_less_mono2 advance_gt)

declare skip_equal.simps [simp del]

fun count_names :: "path list \<Rightarrow> int \<Rightarrow> int" where
  "count_names [] count = count"
| "count_names (name # rest) count =
     count_names rest
       (if \<not> path_eq_string name '''' \<and> \<not> path_eq_string name ''.'' \<and>
           \<not> path_eq_string name ''..'' then count + 1
        else if path_eq_string name ''..'' then count - 1 else count)"

definition lexically_relative :: "path \<Rightarrow> path \<Rightarrow> path" where
  "lexically_relative p base =
     (if \<not> path_eq (root_name p) (root_name base) \<or> is_absolute p \<noteq> is_absolute base \<or>
         (\<not> has_root_directory p \<and> has_root_directory base) then []
      else let (me, them) = skip_equal p base (it_first p) (it_first base)
           in if me = it_last p \<and> them = it_last base then path_of ''.''
              else let count = count_names (names_from base them) 0
                   in if count < 0 then []
                      else fold (\<lambda>name result. append_path result name) (names_from p me)
                             (fold (\<lambda>i result. append_string result ''..'') [0..<nat count] []))"

section \<open>File streams\<close>

text \<open>
  The part of \<^verbatim>\<open>std::ifstream\<close> that \<^verbatim>\<open>FileService::ReadLastLine\<close> uses, by the
  rules of the C++ standard library: the stream is the content of the file, the get
  position and the state bits \<^verbatim>\<open>failbit\<close> and \<^verbatim>\<open>eofbit\<close>. \<^verbatim>\<open>seekg\<close> clears
  \<^verbatim>\<open>eofbit\<close>, does nothing on a failed stream, and sets \<^verbatim>\<open>failbit\<close> when the
  position asked for is before the start of the file. \<^verbatim>\<open>peek\<close>, \<^verbatim>\<open>get\<close> and
  \<^verbatim>\<open>std::getline\<close> read nothing from a stream that is not good and set
  \<^verbatim>\<open>failbit\<close>; \<^verbatim>\<open>std::getline\<close> then leaves the string as it was. \<open>!file\<close> is
  \<open>failbit\<close>.
\<close>

datatype seekdir = seek_beg | seek_cur | seek_end

record ifstream =
  content :: string
  position :: nat
  failbit :: bool
  eofbit :: bool

definition eof_value :: int where
  "eof_value = - 1"

definition newline :: char where
  "newline = CHR 0x0A"

definition good :: "ifstream \<Rightarrow> bool" where
  "good f \<longleftrightarrow> \<not> failbit f \<and> \<not> eofbit f"

definition seekg :: "int \<Rightarrow> seekdir \<Rightarrow> ifstream \<Rightarrow> ifstream" where
  "seekg off dir f0 =
     (let f = f0\<lparr>eofbit := False\<rparr>
      in if failbit f then f
         else let target = (case dir of
                              seek_beg \<Rightarrow> off
                            | seek_cur \<Rightarrow> int (position f) + off
                            | seek_end \<Rightarrow> int (length (content f)) + off)
              in if target < 0 then f\<lparr>failbit := True\<rparr> else f\<lparr>position := nat target\<rparr>)"

definition peek :: "ifstream \<Rightarrow> int \<times> ifstream" where
  "peek f =
     (if \<not> good f then (eof_value, f\<lparr>failbit := True\<rparr>)
      else if position f < length (content f) then (of_char (content f ! position f), f)
      else (eof_value, f\<lparr>eofbit := True\<rparr>))"

definition get_char :: "ifstream \<Rightarrow> int \<times> ifstream" where
  "get_char f =
     (if \<not> good f then (eof_value, f\<lparr>failbit := True\<rparr>)
      else if position f < length (content f)
      then (of_char (content f ! position f), f\<lparr>position := position f + 1\<rparr>)
      else (eof_value, f\<lparr>eofbit := True, failbit := True\<rparr>))"

definition getline :: "string \<Rightarrow> ifstream \<Rightarrow> string \<times> ifstream" where
  "getline str f =
     (if \<not> good f then (str, f\<lparr>failbit := True\<rparr>)
      else let rest = drop (position f) (content f);
               line = takeWhile (\<lambda>c. c \<noteq> newline) rest
           in if length line < length rest
              then (line, f\<lparr>position := position f + length line + 1\<rparr>)
              else (line, f\<lparr>position := position f + length line, eofbit := True,
                            failbit := (line = [])\<rparr>))"

text \<open>
  The body of \<^verbatim>\<open>ReadLastLine\<close> on the opened file. \<open>scan_back\<close> is its loop
  \<^verbatim>\<open>while (ch != '\\n')\<close>, which steps back one character at a time.
\<close>

function scan_back :: "int \<Rightarrow> ifstream \<Rightarrow> int \<times> ifstream" where
  "scan_back ch f =
     (if ch \<noteq> of_char newline then
        (let f1 = seekg (- 1) seek_cur f
         in if failbit f1 then (ch, f1)
            else case peek f1 of (ch', f2) \<Rightarrow> scan_back ch' f2)
      else (ch, f))"
  by pat_completeness auto
termination
  by (relation "measure (\<lambda>(ch, f). position f)")
     (auto simp: seekg_def peek_def Let_def split: if_splits)

declare scan_back.simps [simp del]

definition read_last_line :: "ifstream \<Rightarrow> string" where
  "read_last_line file =
     (let f1 = seekg (- 1) seek_end file
      in if failbit f1 then []
         else case peek f1 of (c, f2) \<Rightarrow>
           let f3 = (if c = of_char newline then seekg (- 1) seek_cur f2 else f2)
           in if c = of_char newline \<and> failbit f3 then []
              else case scan_back 0 f3 of (ch, f4) \<Rightarrow>
                let f5 = (if ch = of_char newline then snd (get_char f4) else f4)
                in fst (getline [] f5))"

definition opened :: "string \<Rightarrow> ifstream" where
  "opened text = \<lparr>content = text, position = 0, failbit = False, eofbit = False\<rparr>"

section \<open>The file service\<close>

text \<open>
  Embedding of \<^verbatim>\<open>net/server/service/file_service.cc\<close> and of the
  \<^verbatim>\<open>HandleWrite\<close> state of \<^verbatim>\<open>net/server/impl/project2_service.cc\<close>. The service
  is its \<^verbatim>\<open>root_\<close> with the file system: \<open>files\<close> maps the path of a file to its
  content, \<open>refused\<close> holds the paths that cannot be opened for appending. Opening a
  file for reading fails when it does not exist. \<^verbatim>\<open>HandleWrite\<close> gets the decoded
  Write message and returns the message sent to the client and the next state.
\<close>

record FileService =
  root :: path
  files :: "string \<rightharpoonup> string"
  refused :: "string set"

definition access_allowed :: "FileService \<Rightarrow> string \<Rightarrow> bool" where
  "access_allowed s name \<longleftrightarrow>
     path_eq_string
       (lexically_relative (root s) (lexically_normal (append_string (root s) name))) ''..''"

definition ReadLastLine :: "FileService \<Rightarrow> string \<Rightarrow> error + string" where
  "ReadLastLine s name =
     (let full_path = lexically_normal (append_string (root s) name)
      in if \<not> path_eq_string (lexically_relative (root s) full_path) ''..'' \<or>
            char_at name 0 = CHR ''.''
         then Inl (Error ''Invalid file access'')
         else case files s full_path of
                None \<Rightarrow> Inl (Error (''Failed to open file '' @ name))
              | Some text \<Rightarrow> Inr (read_last_line (opened text)))"

definition AppendLine :: "FileService \<Rightarrow> string \<Rightarrow> string \<Rightarrow> error + FileService" where
  "AppendLine s name line =
     (let full_path = lexically_normal (append_string (root s) name)
      in if \<not> path_eq_string (lexically_relative (root s) full_path) ''..''
         then Inl (Error ''Invalid file access'')
         else if full_path \<in> refused s then Inl (Error (''Failed to open file '' @ name))
         else Inr (s\<lparr>files := (files s)(full_path \<mapsto>
                      (case files s full_path of None \<Rightarrow> [] | Some text \<Rightarrow> text)
                      @ line @ [newline])\<rparr>))"

datatype response = SendOk | SendError string

datatype next_state = AwaitMessage | Stop

definition what :: "error \<Rightarrow> string" where
  "what e = (case e of Error message \<Rightarrow> message | _ \<Rightarrow> [])"

definition HandleWrite ::
  "FileService \<Rightarrow> string \<times> string \<Rightarrow> FileService \<times> response \<times> next_state" where
  "HandleWrite s w =
     (case AppendLine s (fst w) (snd w) of
        Inl e \<Rightarrow> (s, SendError (what e), Stop)
      | Inr s' \<Rightarrow> (s', SendOk, AwaitMessage))"

text \<open>A service on \<open>/data\<close> with no file yet, where every file can be opened.\<close>

definition served :: FileService where
  "served = \<lparr>root = lexically_normal (path_of ''/data''), files = Map.empty, refused = {}\<rparr>"

section \<open>Properties\<close>

subsection \<open>Mutual exclusion engine: auxiliary facts\<close>

lemma unat_succ: "x \<noteq> - 1 \<Longrightarrow> unat (x + 1) = unat x + 1" for x :: "'a::len word"
  by (metis Suc_eq_plus1 add.commute max_word_wrap unatSuc)

lemma list_all_update:
  "list_all P xs \<Longrightarrow> (i < length xs \<Longrightarrow> P y) \<Longrightarrow> list_all P (xs[i := y])"
  by (induction xs arbitrary: i) (auto split: nat.splits)

lemma requests_for_carry:
  "SendRequest k m' \<in> set (requests_for m i entries) \<Longrightarrow> m' = m"
  by (induction entries arbitrary: i) (auto split: if_splits)

lemma requests_for_none:
  "list_all (\<lambda>entry. rq_file_name m \<in> have_permission_for entry) entries \<Longrightarrow>
   requests_for m i entries = []"
  by (induction entries arbitrary: i) auto

lemma request_targets_append [simp]:
  "request_targets (xs @ ys) = request_targets xs @ request_targets ys"
  by (induction xs rule: request_targets.induct) auto

lemma request_targets_requests_for:
  "request_targets (requests_for m i entries) =
     map (\<lambda>k. i + k) (filter (\<lambda>k. rq_file_name m \<notin> have_permission_for (entries ! k))
                           [0..<length entries])"
proof (induction entries arbitrary: i)
  case Nil
  then show ?case by simp
next
  case (Cons entry rest)
  have shift: "[0..<length (entry # rest)] = 0 # map Suc [0..<length rest]"
    by (simp add: upt_conv_Cons map_Suc_upt del: upt_Suc)
  show ?case
    unfolding shift by (simp add: Cons.IH filter_map comp_def)
qed

lemma CheckForMutualExclusion_cases:
  "my_request s = Some req \<Longrightarrow>
   CheckForMutualExclusion s =
     (if has_mutual_exclusion s (mr_file_name req)
      then Inr (s\<lparr>state := kInCriticalSection\<rparr>, [RunOperation (mr_operation req)])
      else Inr (s, []))"
  by (simp add: CheckForMutualExclusion_def PerformCriticalSection_def)

lemma erase_permission_fields [simp]:
  "state (erase_permission i g s) = state s"
  "my_request (erase_permission i g s) = my_request s"
  "delayed_requests (erase_permission i g s) = delayed_requests s"
  "timestamp (erase_permission i g s) = timestamp s"
  "options_id (erase_permission i g s) = options_id s"
  by (simp_all add: erase_permission_def)

lemma has_mutual_exclusion_erase:
  assumes "g \<noteq> F" and "has_mutual_exclusion s F"
  shows "has_mutual_exclusion (erase_permission i g s) F"
proof -
  have "F \<in> have_permission_for (network s ! i)" if "i < length (network s)"
    using assms(2) that by (simp add: has_mutual_exclusion_def list_all_length)
  with assms show ?thesis
    by (simp add: has_mutual_exclusion_def erase_permission_def list_all_update)
qed

lemma OnReceiveRequest_waiting:
  "state s = kWaiting \<Longrightarrow>
   OnReceiveRequest s i r =
     Inr (erase_permission i (rq_file_name r)
            (s\<lparr>timestamp := max (rq_timestamp r + 1) (timestamp s + 1)\<rparr>),
          [reply_to (s\<lparr>timestamp := max (rq_timestamp r + 1) (timestamp s + 1)\<rparr>) i (rq_file_name r)])"
  by (simp add: OnReceiveRequest_def Let_def)

lemma at_rest_receive:
  assumes "at_rest s F" and "rq_file_name r \<noteq> F"
  shows "\<exists>s' out. OnReceiveRequest s i r = Inr (s', out) \<and> at_rest s' F \<and>
           delayed_requests s' = delayed_requests s"
proof -
  let ?s1 = "s\<lparr>timestamp := max (rq_timestamp r + 1) (timestamp s + 1)\<rparr>"
  have "has_mutual_exclusion ?s1 F"
    using assms(1) by (simp add: at_rest_def has_mutual_exclusion_def)
  from has_mutual_exclusion_erase [OF assms(2) this, of i] assms(1)
  show ?thesis
    by (simp add: at_rest_def OnReceiveRequest_waiting)
qed

text \<open>
  Draining the queue of a waiting engine ends: every queued request is answered at once,
  nothing is queued again, and requests for other files leave the permissions for \<open>F\<close>
  alone.
\<close>

lemma deliver_at_rest:
  assumes "at_rest s F" and "\<forall>d \<in> set (delayed_requests s). rq_file_name (snd d) \<noteq> F"
  shows "\<exists>s' out. DeliverDelayedRequests s acc = Some (Inr (s', out)) \<and> at_rest s' F \<and>
           delayed_requests s' = []"
  using assms
proof (induction "length (delayed_requests s)" arbitrary: s acc)
  case 0
  then show ?case by (simp add: DeliverDelayedRequests.simps)
next
  case (Suc n)
  then obtain d rest where q: "delayed_requests s = d # rest"
    by (cases "delayed_requests s") auto
  with Suc.prems have "rq_file_name (snd d) \<noteq> F" by simp
  from at_rest_receive [OF Suc.prems(1) this, of "fst d"]
  obtain s1 out1 where r: "OnReceiveRequest s (fst d) (snd d) = Inr (s1, out1)"
    and a1: "at_rest s1 F" and d1: "delayed_requests s1 = delayed_requests s"
    by blast
  let ?s2 = "s1\<lparr>delayed_requests := tl (delayed_requests s1)\<rparr>"
  have a2: "at_rest ?s2 F" using a1 by (simp add: at_rest_def has_mutual_exclusion_def)
  have len: "n = length (delayed_requests ?s2)" using Suc.hyps(2) q d1 by simp
  have all: "\<forall>d \<in> set (delayed_requests ?s2). rq_file_name (snd d) \<noteq> F"
    using Suc.prems(2) q d1 by simp
  from Suc.hyps(1) [OF len a2 all, of "acc @ out1"]
  show ?case
    by (subst DeliverDelayedRequests.simps) (simp add: q r)
qed

lemma receive_all_at_rest:
  assumes "at_rest s F" and "\<forall>d \<in> set arrivals. rq_file_name (snd d) \<noteq> F"
    and "delayed_requests s = []"
  shows "\<exists>s' out. receive_all s arrivals = Inr (s', out) \<and> at_rest s' F \<and> delayed_requests s' = []"
  using assms
proof (induction arrivals arbitrary: s)
  case Nil
  then show ?case by simp
next
  case (Cons d rest)
  then have "rq_file_name (snd d) \<noteq> F" by simp
  from at_rest_receive [OF Cons.prems(1) this, of "fst d"]
  obtain s1 out1 where r: "OnReceiveRequest s (fst d) (snd d) = Inr (s1, out1)"
    and a1: "at_rest s1 F" and d1: "delayed_requests s1 = delayed_requests s"
    by blast
  from Cons.IH [OF a1] Cons.prems d1
  obtain s2 out2 where "receive_all s1 rest = Inr (s2, out2)" "at_rest s2 F" "delayed_requests s2 = []"
    by auto
  then show ?case by (simp add: r)
qed

lemma run_at_rest:
  assumes "at_rest s F"
  shows "RunWithMutualExclusion s F op =
     Inr (s\<lparr>my_request := Some \<lparr>mr_file_name = F, mr_operation = op, mr_timestamp = timestamp s\<rparr>,
             state := kInCriticalSection\<rparr>, [RunOperation op])"
  using assms
  by (simp add: at_rest_def RunWithMutualExclusion_def RequestMutualExclusion_def
      CheckForMutualExclusion_cases has_mutual_exclusion_def requests_for_none)

lemma requests_to_peers_without_permission:
  assumes "state s = kWaiting" and "my_request s = None"
  shows "\<exists>s' effs. RunWithMutualExclusion s f op = Inr (s', effs) \<and>
           request_targets effs =
             filter (\<lambda>k. f \<notin> have_permission_for (network s ! k)) [0..<length (network s)]"
  using assms
  by (auto simp: RunWithMutualExclusion_def RequestMutualExclusion_def
        CheckForMutualExclusion_cases request_targets_requests_for)

lemma release_then_rerun:
  assumes "state s = kInCriticalSection" and "my_request s = Some req"
    and "mr_file_name req = F" and "has_mutual_exclusion s F"
    and "\<forall>d \<in> set (delayed_requests s @ between). rq_file_name (snd d) \<noteq> F"
  shows "\<exists>s1 out1 s2 out2 s3.
           ReleaseMutualExclusion s = Some (Inr (s1, out1)) \<and>
           receive_all s1 between = Inr (s2, out2) \<and>
           RunWithMutualExclusion s2 F op = Inr (s3, [RunOperation op]) \<and>
           state s3 = kInCriticalSection"
proof -
  let ?s0 = "s\<lparr>my_request := None, state := kWaiting\<rparr>"
  have a0: "at_rest ?s0 F" using assms(4) by (simp add: at_rest_def has_mutual_exclusion_def)
  have "\<forall>d \<in> set (delayed_requests ?s0). rq_file_name (snd d) \<noteq> F" using assms(5) by simp
  from deliver_at_rest [OF a0 this, of "[]"]
  obtain s1 out1 where 1: "ReleaseMutualExclusion s = Some (Inr (s1, out1))"
    and a1: "at_rest s1 F" and d1: "delayed_requests s1 = []"
    by (auto simp: ReleaseMutualExclusion_def)
  have "\<forall>d \<in> set between. rq_file_name (snd d) \<noteq> F" using assms(5) by simp
  from receive_all_at_rest [OF a1 this d1]
  obtain s2 out2 where 2: "receive_all s1 between = Inr (s2, out2)" and a2: "at_rest s2 F"
    by blast
  from run_at_rest [OF a2, of op] 1 2 show ?thesis by simp
qed

text \<open>The invariant holds in every state that an engine reaches.\<close>

lemma has_mutual_exclusion_emplace:
  assumes "has_mutual_exclusion s F"
  shows "has_mutual_exclusion (emplace_permission i f s) F"
proof -
  have "F \<in> have_permission_for (network s ! i)" if "i < length (network s)"
    using assms that by (simp add: has_mutual_exclusion_def list_all_length)
  with assms show ?thesis
    by (simp add: has_mutual_exclusion_def emplace_permission_def list_all_update)
qed

lemma inv_constructed: "engine_inv (constructed self_id peers)"
  by (simp add: engine_inv_def constructed_def)

lemma inv_run:
  assumes "engine_inv s" and "RunWithMutualExclusion s f op = Inr (s', effs)"
  shows "engine_inv s'"
  using assms
  by (auto simp: engine_inv_def RunWithMutualExclusion_def RequestMutualExclusion_def
      CheckForMutualExclusion_cases has_mutual_exclusion_def split: if_splits)

lemma inv_request:
  assumes "engine_inv s" and "OnReceiveRequest s i r = Inr (s', effs)"
  shows "engine_inv s'"
  using assms
  by (cases "state s")
     (auto simp: engine_inv_def OnReceiveRequest_def Let_def delay_request_def
        has_mutual_exclusion_def erase_permission_def split: option.splits if_splits)

lemma inv_reply:
  assumes "engine_inv s"
    and "OnReceiveMessage s i (Reply r) = Inr (s', effs)"
  shows "engine_inv s'"
proof -
  let ?s1 = "emplace_permission i (rp_file_name r)
               (s\<lparr>timestamp := max (rp_timestamp r + 1) (timestamp s + 1)\<rparr>)"
  from assms(2) obtain req where req: "my_request s = Some req"
    by (cases "my_request s")
       (auto simp: OnReceiveMessage_def CheckForMutualExclusion_def emplace_permission_def)
  then have req1: "my_request ?s1 = Some req" by (simp add: emplace_permission_def)
  have keep: "has_mutual_exclusion ?s1 F" if "has_mutual_exclusion s F" for F
    using has_mutual_exclusion_emplace
            [of "s\<lparr>timestamp := max (rp_timestamp r + 1) (timestamp s + 1)\<rparr>" F i "rp_file_name r"] that
    by (simp add: has_mutual_exclusion_def)
  have st: "state ?s1 = state s" by (simp add: emplace_permission_def)
  show ?thesis
  proof (cases "has_mutual_exclusion ?s1 (mr_file_name req)")
    case True
    with assms(2) req1 have "s' = ?s1\<lparr>state := kInCriticalSection\<rparr>"
      by (simp add: OnReceiveMessage_def CheckForMutualExclusion_cases)
    with True req1 show ?thesis
      by (simp add: engine_inv_def has_mutual_exclusion_def)
  next
    case False
    with assms(2) req1 have s': "s' = ?s1"
      by (simp add: OnReceiveMessage_def CheckForMutualExclusion_cases)
    from False keep req have "state s \<noteq> kInCriticalSection"
      using assms(1) by (auto simp: engine_inv_def)
    with assms(1) req req1 st show ?thesis
      unfolding s' by (simp add: engine_inv_def)
  qed
qed

lemma inv_receive:
  assumes "engine_inv s" and "OnReceiveMessage s i m = Inr (s', effs)"
  shows "engine_inv s'"
proof (cases m)
  case (Request r)
  with assms show ?thesis by (auto simp: OnReceiveMessage_def dest: inv_request)
next
  case (Reply r)
  with assms show ?thesis by (auto dest: inv_reply)
next
  case (ErrorMessage x)
  with assms show ?thesis by (simp add: OnReceiveMessage_def)
next
  case (OtherOpcode x)
  with assms show ?thesis by (simp add: OnReceiveMessage_def)
qed

lemma deliver_waiting:
  assumes "state s = kWaiting" and "my_request s = None"
    and "DeliverDelayedRequests s acc = Some (Inr (s', out))"
  shows "state s' = kWaiting \<and> my_request s' = None"
  using assms
proof (induction "length (delayed_requests s)" arbitrary: s acc)
  case 0
  then show ?case by (simp add: DeliverDelayedRequests.simps)
next
  case (Suc n)
  then obtain d rest where q: "delayed_requests s = d # rest"
    by (cases "delayed_requests s") auto
  let ?s1 = "erase_permission (fst d) (rq_file_name (snd d))
               (s\<lparr>timestamp := max (rq_timestamp (snd d) + 1) (timestamp s + 1)\<rparr>)"
  let ?s2 = "?s1\<lparr>delayed_requests := tl (delayed_requests ?s1)\<rparr>"
  have len: "n = length (delayed_requests ?s2)" using Suc.hyps(2) q by simp
  have w: "state ?s2 = kWaiting" "my_request ?s2 = None" using Suc.prems by simp_all
  from Suc.prems(3) obtain acc' where "DeliverDelayedRequests ?s2 acc' = Some (Inr (s', out))"
    by (subst (asm) DeliverDelayedRequests.simps)
       (simp add: q OnReceiveRequest_waiting [OF Suc.prems(1)])
  from Suc.hyps(1) [OF len w this] show ?case .
qed

lemma inv_release:
  assumes "ReleaseMutualExclusion s = Some (Inr (s', effs))"
  shows "engine_inv s'"
  using deliver_waiting [of "s\<lparr>my_request := None, state := kWaiting\<rparr>" "[]" s' effs] assms
  by (simp add: ReleaseMutualExclusion_def engine_inv_def)

lemma reachable_engine_inv: "reachable_engine s \<Longrightarrow> engine_inv s"
  by (induction rule: reachable_engine.induct)
     (auto intro: inv_constructed inv_run inv_receive inv_release)

text \<open>
  The example \<open>entered\<close> is reached: the engine asks for \<open>f\<close>, both peers reply, and
  inside the critical section a Request for \<open>g\<close> arrives and is queued.
\<close>

lemma reachable_entered: "reachable_engine entered"
proof -
  let ?s0 = "constructed 1 fresh_peers :: nat mutex_service"
  let ?s1 = "?s0\<lparr>state := kRequesting,
      my_request := Some \<lparr>mr_file_name = ''f'', mr_operation = 7, mr_timestamp = 0\<rparr>\<rparr>"
  let ?s2 = "?s1\<lparr>timestamp := 2,
      network := [\<lparr>connection_id = 2, have_permission_for = {''f''}\<rparr>,
                  \<lparr>connection_id = 3, have_permission_for = {}\<rparr>]\<rparr>"
  let ?s3 = "?s2\<lparr>timestamp := 3, state := kInCriticalSection,
      network := [\<lparr>connection_id = 2, have_permission_for = {''f''}\<rparr>,
                  \<lparr>connection_id = 3, have_permission_for = {''f''}\<rparr>]\<rparr>"
  have r0: "reachable_engine ?s0"
    by (rule reachable_engine.start) (simp add: fresh_peers_def)
  have "RunWithMutualExclusion ?s0 ''f'' 7 =
          Inr (?s1, [SendRequest 0 \<lparr>rq_timestamp = 0, rq_file_name = ''f''\<rparr>,
                     SendRequest 1 \<lparr>rq_timestamp = 0, rq_file_name = ''f''\<rparr>])"
    by (simp add: RunWithMutualExclusion_def RequestMutualExclusion_def constructed_def
        fresh_peers_def CheckForMutualExclusion_def has_mutual_exclusion_def)
  from reachable_engine.run [OF r0 this] have r1: "reachable_engine ?s1" .
  have "OnReceiveMessage ?s1 0 (Reply \<lparr>rp_timestamp = 1, rp_file_name = ''f''\<rparr>) = Inr (?s2, [])"
    by (simp add: OnReceiveMessage_def CheckForMutualExclusion_def constructed_def
        fresh_peers_def emplace_permission_def has_mutual_exclusion_def)
  from reachable_engine.receive [OF r1 _ this] have r2: "reachable_engine ?s2"
    by (simp add: constructed_def fresh_peers_def)
  have "OnReceiveMessage ?s2 1 (Reply \<lparr>rp_timestamp = 1, rp_file_name = ''f''\<rparr>) =
          Inr (?s3, [RunOperation 7])"
    by (simp add: OnReceiveMessage_def CheckForMutualExclusion_def PerformCriticalSection_def
        constructed_def fresh_peers_def emplace_permission_def has_mutual_exclusion_def)
  from reachable_engine.receive [OF r2 _ this] have r3: "reachable_engine ?s3"
    by simp
  have "OnReceiveMessage ?s3 1 (Request \<lparr>rq_timestamp = 6, rq_file_name = ''g''\<rparr>) =
          Inr (entered, [])"
    by (simp add: OnReceiveMessage_def OnReceiveRequest_def Let_def delay_request_def
        constructed_def entered_def)
  from reachable_engine.receive [OF r3 _ this] show ?thesis by simp
qed

lemma release_then_rerun_reachable:
  assumes "reachable_engine s" and "state s = kInCriticalSection" and "my_request s = Some req"
    and "mr_file_name req = F"
    and "\<forall>d \<in> set (delayed_requests s @ between). rq_file_name (snd d) \<noteq> F"
  shows "\<exists>s1 out1 s2 out2 s3.
           ReleaseMutualExclusion s = Some (Inr (s1, out1)) \<and>
           receive_all s1 between = Inr (s2, out2) \<and>
           RunWithMutualExclusion s2 F op = Inr (s3, [RunOperation op]) \<and>
           state s3 = kInCriticalSection"
proof -
  from reachable_engine_inv [OF assms(1)] assms(2-4) have "has_mutual_exclusion s F"
    by (auto simp: engine_inv_def)
  from release_then_rerun [OF assms(2-4) this assms(5)] show ?thesis .
qed

subsection \<open>Mutual exclusion engine: the claims\<close>

text \<open>
  C1 (fails on the code). Mutual exclusion says that no reachable state of the network has
  two distinct nodes in the critical section for the same file. The schedule
  \<open>stale_permission_schedule\<close> is a run of the step relation from the started network of
  three nodes, and it ends with nodes 0 and 1 both in state \<open>kInCriticalSection\<close>, both
  with an outstanding request for the file \<open>f\<close>. The branch of
  \<^verbatim>\<open>OnReceiveRequest\<close> that concedes priority for the same file replies without erasing
  the file from \<open>have_permission_for\<close> (its comment says "I should not even have their
  permission anyway"), and node 0 did hold that permission, retained from its first entry.
\<close>

theorem mutual_exclusion_violated:
  "map_option critical_sections (run (started [1, 2, 3]) stale_permission_schedule) =
     Some [(kInCriticalSection, Some ''f''), (kInCriticalSection, Some ''f''), (kWaiting, None)]"
  by code_simp

text \<open>
  C2 (as stated, fails). The claim has \<^verbatim>\<open>RunWithMutualExclusion\<close> tick the clock
  before recording the request. The code records the request with the current clock and
  leaves the clock alone: started with clock 0, the engine records timestamp 0, sends
  \<open>Request{0, f}\<close> and still has clock 0.
\<close>

theorem run_does_not_tick_counterexample:
  "RunWithMutualExclusion (constructed 1 two_peers) ''f'' (7::nat) =
     Inr (\<lparr>options_id = 1, network = two_peers, timestamp = 0, state = kRequesting,
           my_request = Some \<lparr>mr_file_name = ''f'', mr_operation = 7, mr_timestamp = 0\<rparr>,
           delayed_requests = []\<rparr>,
          [SendRequest 0 \<lparr>rq_timestamp = 0, rq_file_name = ''f''\<rparr>])"
  by (simp add: RunWithMutualExclusion_def RequestMutualExclusion_def constructed_def
      two_peers_def CheckForMutualExclusion_def has_mutual_exclusion_def)

text \<open>
  C2 (amended). For every call \<^verbatim>\<open>RunWithMutualExclusion(filename, op)\<close> made while the
  state is waiting and no request is outstanding, the engine records the outstanding
  request as \<open>(filename, T, op)\<close> where \<open>T\<close> is the clock at the call, the clock is
  unchanged, and every Request message sent during this entry carries \<open>T\<close> and the
  file name.
\<close>

theorem run_records_current_clock:
  assumes "state s = kWaiting" and "my_request s = None"
  shows "\<exists>s' effs. RunWithMutualExclusion s f op = Inr (s', effs) \<and>
           timestamp s' = timestamp s \<and>
           my_request s' = Some \<lparr>mr_file_name = f, mr_operation = op, mr_timestamp = timestamp s\<rparr> \<and>
           (\<forall>k m. SendRequest k m \<in> set effs \<longrightarrow>
                    m = \<lparr>rq_timestamp = timestamp s, rq_file_name = f\<rparr>)"
  using assms
  by (auto simp: RunWithMutualExclusion_def RequestMutualExclusion_def
        CheckForMutualExclusion_cases dest: requests_for_carry)

theorem run_records_current_clock_witness:
  "\<exists>s' effs. RunWithMutualExclusion (constructed 1 two_peers) ''f'' (7::nat) = Inr (s', effs) \<and>
     timestamp s' = 0 \<and>
     my_request s' = Some \<lparr>mr_file_name = ''f'', mr_operation = 7, mr_timestamp = 0\<rparr> \<and>
     (\<forall>k m. SendRequest k m \<in> set effs \<longrightarrow> m = \<lparr>rq_timestamp = 0, rq_file_name = ''f''\<rparr>)"
  using run_records_current_clock [of "constructed 1 two_peers" "''f''" "7::nat"]
  by (simp add: constructed_def)

text \<open>
  C3. A node in state requesting with outstanding request \<open>(myFn, myTs)\<close> receives
  \<open>Request{ts, myFn}\<close> from peer \<open>P\<close>. When \<open>(myTs, self_id)\<close> is strictly below
  \<open>(ts, P.id)\<close> in the lexicographic order, the request is appended to the delayed queue
  and nothing is sent; otherwise one Reply for \<open>myFn\<close> goes to \<open>P\<close>. So a request with
  the same timestamp from a peer with a lower id gets the Reply. Node ids are unique in
  the cluster, so the peer's id is not the node's own.
\<close>

theorem same_file_request_priority:
  assumes "state s = kRequesting"
    and "my_request s = Some mine"
    and "mr_file_name mine = rq_file_name request"
    and "options_id s \<noteq> uint (connection_id (network s ! i))"
  shows "OnReceiveRequest s i request =
     (let s1 = s\<lparr>timestamp := max (rq_timestamp request + 1) (timestamp s + 1)\<rparr> in
      if mr_timestamp mine < rq_timestamp request \<or>
         (mr_timestamp mine = rq_timestamp request \<and>
          options_id s < uint (connection_id (network s ! i)))
      then Inr (s1\<lparr>delayed_requests := delayed_requests s @ [(i, request)]\<rparr>, [])
      else Inr (s1, [SendReply i \<lparr>rp_timestamp = timestamp s1,
                                  rp_file_name = mr_file_name mine\<rparr>]))"
  using assms
  by (auto simp: OnReceiveRequest_def Let_def delay_request_def reply_to_def)

theorem same_file_request_priority_witness:
  "OnReceiveRequest (asking\<lparr>options_id := 3\<rparr>) 0 \<lparr>rq_timestamp = 4, rq_file_name = ''f''\<rparr> =
     Inr (asking\<lparr>options_id := 3, timestamp := 6\<rparr>,
          [SendReply 0 \<lparr>rp_timestamp = 6, rp_file_name = ''f''\<rparr>]) \<and>
   OnReceiveRequest asking 0 \<lparr>rq_timestamp = 4, rq_file_name = ''f''\<rparr> =
     Inr (asking\<lparr>timestamp := 6,
                 delayed_requests := [(0, \<lparr>rq_timestamp = 4, rq_file_name = ''f''\<rparr>)]\<rparr>, [])"
  using same_file_request_priority
          [of "asking\<lparr>options_id := 3\<rparr>" _ "\<lparr>rq_timestamp = 4, rq_file_name = ''f''\<rparr>" 0]
        same_file_request_priority
          [of asking _ "\<lparr>rq_timestamp = 4, rq_file_name = ''f''\<rparr>" 0]
  by (simp add: asking_def two_peers_def)

text \<open>
  C4 (as stated, fails). The claim sets the clock to \<open>max(T, ts+1)\<close> on a Reply. With
  \<open>T = 5\<close> and \<open>ts = 0\<close> that is 5, and the engine moves its clock to 6.
\<close>

theorem reply_clock_counterexample:
  "map_sum id (timestamp \<circ> fst)
     (OnReceiveMessage asking 0 (Reply \<lparr>rp_timestamp = 0, rp_file_name = ''g''\<rparr>)) = Inr 6 \<and>
   max (timestamp asking) (0 + 1) = 5"
  by (simp add: OnReceiveMessage_def CheckForMutualExclusion_def asking_def two_peers_def
      emplace_permission_def has_mutual_exclusion_def)

text \<open>
  C4 (amended). On receiving \<open>Reply{ts, filename}\<close> from peer \<open>P\<close>, the engine sets
  the clock to \<open>max(ts+1, T+1)\<close> in 64-bit arithmetic, which is \<open>max(T, ts) + 1\<close>
  unless one of the two is the largest clock value; it adds the file name to its
  have-permission-for set for \<open>P\<close>; and it re-evaluates the entry condition for the
  outstanding request: if every peer's set now holds the requested file, the state becomes
  in-critical-section and the operation is called. Nothing else of the engine changes.
  (With no request outstanding the re-evaluation throws \<^verbatim>\<open>bad_optional_access\<close>.)
\<close>

theorem reply_received:
  assumes "i < length (network s)"
  shows "(my_request s = None \<longrightarrow>
      OnReceiveMessage s i (Reply \<lparr>rp_timestamp = ts, rp_file_name = f\<rparr>) =
        Inl bad_optional_access) \<and>
   (\<forall>req. my_request s = Some req \<longrightarrow> (\<exists>s' effs.
     OnReceiveMessage s i (Reply \<lparr>rp_timestamp = ts, rp_file_name = f\<rparr>) = Inr (s', effs) \<and>
     timestamp s' = max (ts + 1) (timestamp s + 1) \<and>
     (ts \<noteq> - 1 \<and> timestamp s \<noteq> - 1 \<longrightarrow>
        unat (timestamp s') = max (unat (timestamp s)) (unat ts) + 1) \<and>
     length (network s') = length (network s) \<and>
     have_permission_for (network s' ! i) = insert f (have_permission_for (network s ! i)) \<and>
     connection_id (network s' ! i) = connection_id (network s ! i) \<and>
     (\<forall>j. j \<noteq> i \<longrightarrow> network s' ! j = network s ! j) \<and>
     options_id s' = options_id s \<and>
     my_request s' = my_request s \<and>
     delayed_requests s' = delayed_requests s \<and>
     state s' = (if has_mutual_exclusion s' (mr_file_name req) then kInCriticalSection else state s) \<and>
     effs = (if has_mutual_exclusion s' (mr_file_name req) then [RunOperation (mr_operation req)] else [])))"
proof -
  have clock: "unat (max (ts + 1) (timestamp s + 1)) = max (unat (timestamp s)) (unat ts) + 1"
    if "ts \<noteq> - 1" "timestamp s \<noteq> - 1"
    using that by (simp add: unat_succ max_def word_le_nat_alt)
  have none: "OnReceiveMessage s i (Reply \<lparr>rp_timestamp = ts, rp_file_name = f\<rparr>) =
      Inl bad_optional_access" if "my_request s = None"
    using that
    by (simp add: OnReceiveMessage_def CheckForMutualExclusion_def emplace_permission_def)
  show ?thesis
    using assms clock none
    by (simp add: OnReceiveMessage_def CheckForMutualExclusion_cases emplace_permission_def
        has_mutual_exclusion_def)
qed

theorem reply_received_witness:
  "OnReceiveMessage asking 0 (Reply \<lparr>rp_timestamp = 9, rp_file_name = ''f''\<rparr>) =
     Inr (asking\<lparr>timestamp := 10, state := kInCriticalSection,
                 network := [\<lparr>connection_id = 2, have_permission_for = {''f''}\<rparr>,
                             \<lparr>connection_id = 3, have_permission_for = {''f''}\<rparr>]\<rparr>,
          [RunOperation 7])"
  using reply_received [of 0 asking 9 "''f''"]
  by (simp add: OnReceiveMessage_def CheckForMutualExclusion_def PerformCriticalSection_def
      asking_def two_peers_def emplace_permission_def has_mutual_exclusion_def)

text \<open>
  C5. On request entry a Request goes exactly to the peers whose have-permission-for set
  does not hold the requested file, once each and in the order of the network list. Hence
  a node that has reached the critical section for \<open>F\<close>, releases, and from the
  release on handles no Request for \<open>F\<close> (neither
  among those queued during the critical section, which the release hands to
  \<^verbatim>\<open>OnReceiveRequest\<close>, nor among those arriving afterwards) sends no Request at its
  next \<^verbatim>\<open>RunWithMutualExclusion(F, op)\<close> and enters at once: the only effect of the call
  is the call of \<open>op\<close>.
\<close>

theorem retained_permission:
  "(state s0 = kWaiting \<and> my_request s0 = None \<longrightarrow>
      (\<exists>s' effs. RunWithMutualExclusion s0 f op0 = Inr (s', effs) \<and>
         request_targets effs =
           filter (\<lambda>k. f \<notin> have_permission_for (network s0 ! k)) [0..<length (network s0)])) \<and>
   (reachable_engine s \<and> state s = kInCriticalSection \<and> my_request s = Some req \<and>
    mr_file_name req = F \<and>
    (\<forall>d \<in> set (delayed_requests s @ between). rq_file_name (snd d) \<noteq> F) \<longrightarrow>
      (\<exists>s1 out1 s2 out2 s3.
         ReleaseMutualExclusion s = Some (Inr (s1, out1)) \<and>
         receive_all s1 between = Inr (s2, out2) \<and>
         RunWithMutualExclusion s2 F op = Inr (s3, [RunOperation op]) \<and>
         request_targets [RunOperation op] = [] \<and>
         state s3 = kInCriticalSection))"
  using requests_to_peers_without_permission [of s0 f op0]
    release_then_rerun_reachable [of s req F between op]
  by auto

theorem retained_permission_witness:
  "(\<exists>s' effs. RunWithMutualExclusion (constructed 1 two_peers) ''f'' (7::nat) = Inr (s', effs) \<and>
      request_targets effs = [0]) \<and>
   reachable_engine entered \<and>
   (\<exists>s1 out1 s2 out2 s3.
      ReleaseMutualExclusion entered = Some (Inr (s1, out1)) \<and>
      receive_all s1 [(0, \<lparr>rq_timestamp = 8, rq_file_name = ''h''\<rparr>)] = Inr (s2, out2) \<and>
      RunWithMutualExclusion s2 ''f'' 9 = Inr (s3, [RunOperation 9]) \<and>
      state s3 = kInCriticalSection)"
  using retained_permission [of "constructed 1 two_peers" "''f''" "7::nat" entered
          "\<lparr>mr_file_name = ''f'', mr_operation = 7, mr_timestamp = 0\<rparr>" "''f''"
          "[(0, \<lparr>rq_timestamp = 8, rq_file_name = ''h''\<rparr>)]" 9]
    reachable_entered
  by (simp add: constructed_def two_peers_def entered_def)

text \<open>
  C6. When \<^verbatim>\<open>OnReceiveRequest\<close> answers a Request for \<open>F\<close> from peer \<open>P\<close> with a
  Reply, \<open>F\<close> is erased from the have-permission-for set for \<open>P\<close> if the engine was
  waiting or requesting another file, and the set is left as it was if the Reply concedes
  priority for the requested file itself. A request that is queued changes no set. In every
  case the entries of the other peers are untouched.
\<close>

theorem reply_permission_frame:
  assumes "i < length (network s)" and "OnReceiveRequest s i request = Inr (s', effs)"
  shows "(effs = [] \<or> effs = [SendReply i \<lparr>rp_timestamp = timestamp s',
                                           rp_file_name = rq_file_name request\<rparr>]) \<and>
         (state s = kWaiting \<or>
          (state s = kRequesting \<and>
           map_option mr_file_name (my_request s) \<noteq> Some (rq_file_name request)) \<longrightarrow>
            effs \<noteq> [] \<and>
            have_permission_for (network s' ! i) =
              have_permission_for (network s ! i) - {rq_file_name request}) \<and>
         (\<not> (state s = kWaiting \<or>
             (state s = kRequesting \<and>
              map_option mr_file_name (my_request s) \<noteq> Some (rq_file_name request))) \<longrightarrow>
            have_permission_for (network s' ! i) = have_permission_for (network s ! i)) \<and>
         length (network s') = length (network s) \<and>
         (\<forall>j. j \<noteq> i \<longrightarrow> network s' ! j = network s ! j)"
  using assms
  by (cases "state s")
     (auto simp: OnReceiveRequest_def Let_def erase_permission_def delay_request_def reply_to_def
           split: option.splits if_splits)

theorem reply_permission_frame_witness:
  "OnReceiveRequest asking 1 \<lparr>rq_timestamp = 2, rq_file_name = ''f''\<rparr> =
     Inr (asking\<lparr>timestamp := 6\<rparr>, [SendReply 1 \<lparr>rp_timestamp = 6, rp_file_name = ''f''\<rparr>]) \<and>
   have_permission_for (network (asking\<lparr>timestamp := 6\<rparr>) ! 1) = {''f''}"
proof -
  have r: "OnReceiveRequest asking 1 \<lparr>rq_timestamp = 2, rq_file_name = ''f''\<rparr> =
     Inr (asking\<lparr>timestamp := 6\<rparr>, [SendReply 1 \<lparr>rp_timestamp = 6, rp_file_name = ''f''\<rparr>])"
    by (simp add: OnReceiveRequest_def Let_def asking_def two_peers_def reply_to_def)
  have "1 < length (network asking)" by (simp add: asking_def two_peers_def)
  from reply_permission_frame [OF this r] r show ?thesis
    by (simp add: asking_def two_peers_def)
qed

subsection \<open>Framing: auxiliary facts\<close>

lemma bindE_simps [simp]:
  "bindE (Inl e) k = Inl e"
  "bindE (Inr x) k = k x"
  by (simp_all add: bindE_def)

lemmas buffer_defs =
  buffer_default_def default_size_def allocate_def buffer_of_def memcpy_in_def memcpy_out_def
  buffer_empty_def buffer_size_def buffer_space_remaining_def
  buffer_space_remaining_until_end_def buffer_advance_write_def buffer_advance_read_def
  buffer_read_into_def buffer_put_def buffer_put_iter_def buffer_view_def buffer_consume_def
  buffer_move_buffer_def buffer_get_def buffer_get_many_def buffer_to_string_def
  buffer_reserve_def buffer_commit_def max_size_def

lemmas service_defs =
  ResetCurrentMessage_def ResetCompoundMessage_def FinishedReadingCurrentMessage_def
  FinishedReadingCompoundMessage_def FinishedReading_def OpcodeStartsACompoundMessage_def
  InACompoundMessage_def read_opcode_def read_body_size_def read_body_def
  ProcessBytesIntoCurrentMessage_def ProcessBytes_def GetReturnedMessage_def
  kOpcodeLength_def kFileTransfer_def kResponse_def kMaxBodySize_def

lemma kBodySizeLength_Suc: "kBodySizeLength = Suc (Suc (Suc (Suc 0)))"
  by (simp add: kBodySizeLength_def)

text \<open>The sender: the frame is laid out in the output buffer and sent whole.\<close>

lemma encode_sample: "PutMessageInOutputBuffer sample connected = Inr sent"
  by (simp add: PutMessageInOutputBuffer_def sample_def sent_def wire_def connected_def
      buffer_defs service_defs kBodySizeLength_Suc Let_def)

lemma send_sample:
  "Socket_Send sent = Inr (wire, sent\<lparr>socket_output := (socket_output sent)\<lparr>b_read := 515\<rparr>\<rparr>)"
  by (simp add: Socket_Send_def sent_def wire_def connected_def buffer_defs Let_def)

text \<open>
  The receiver: the frame arrives in the fresh input buffer, which is then more than half
  full. \<^verbatim>\<open>get_many(510)\<close> takes 509 bytes from the read position and the last one from
  the start of the array, where the opcode is.
\<close>

lemma receive_sample: "Socket_Receive 1024 wire (ResetCompoundMessage connected) = Inr arrived"
  by (simp add: Socket_Receive_def arrived_def wire_def connected_def buffer_defs service_defs Let_def)

lemma process_sample: "ProcessBytes 515 arrived = Inr (True, decoded)"
  by (simp add: arrived_def decoded_def garbled_def wire_def connected_def buffer_defs service_defs
      kBodySizeLength_Suc Let_def)

lemma finished_sample:
  "FinishedReading decoded"
  "\<not> FinishedReading arrived"
  "buffer_size (socket_input arrived) = 515"
  "\<not> FinishedReading (ResetCompoundMessage connected)"
  "buffer_size (socket_input (ResetCompoundMessage connected)) = 0"
  by (simp_all add: arrived_def decoded_def garbled_def wire_def connected_def buffer_defs service_defs)

lemma process_all_sample: "ProcessAllBytes arrived = Some (Inr decoded)"
  unfolding ProcessAllBytes_def
  apply (subst ProcessAllBytes_loop.simps)
  apply (simp add: finished_sample process_sample)
  apply (subst ProcessAllBytes_loop.simps)
  apply (simp add: finished_sample)
  done

lemma process_all_nothing:
  "ProcessAllBytes (ResetCompoundMessage connected) = Some (Inr (ResetCompoundMessage connected))"
  unfolding ProcessAllBytes_def
  apply (subst ProcessAllBytes_loop.simps)
  apply (simp add: finished_sample)
  done

lemma read_sample:
  "ReadMessage [wire] connected =
     Some (Returned (\<lparr>opcode = 3, body = body_now decoded\<rparr>, decoded))"
  by (simp add: ReadMessage_def process_all_nothing finished_sample receive_sample
      process_all_sample GetReturnedMessage_def)
     (simp add: decoded_def connected_def)

lemma decoded_bytes:
  "buffer_to_string (body_now decoded) =
     Inr (garbled, (body_now decoded)\<lparr>b_read := 510\<rparr>)"
  by (simp add: decoded_def garbled_def buffer_defs Let_def)

text \<open>The Write message: the body as laid out, and the bytes that \<^verbatim>\<open>get\<close> returns.\<close>

lemma bytes_of_simps [simp]:
  "bytes_of [] = []"
  "bytes_of (c # cs) = of_char c # bytes_of cs"
  by (simp_all add: bytes_of_def)

lemma write_encoded:
  "WriteMessage_ToMessage \<lparr>wm_file_name = [97, 13], wm_line = [120]\<rparr> =
     Inr \<lparr>opcode = kWrite, body = written\<rparr>"
  by (simp add: WriteMessage_ToMessage_def written_def kStringDelimiter_def buffer_defs Let_def)

lemma get_written:
  "buffer_get (written\<lparr>b_read := 0\<rparr>) = Inr (97, written\<lparr>b_read := Suc 0\<rparr>)"
  "buffer_get (written\<lparr>b_read := Suc 0\<rparr>) = Inr (13, written\<lparr>b_read := 2\<rparr>)"
  "buffer_get (written\<lparr>b_read := 2\<rparr>) = Inr (13, written\<lparr>b_read := 3\<rparr>)"
  "buffer_get (written\<lparr>b_read := 3\<rparr>) = Inr (10, written\<lparr>b_read := 4\<rparr>)"
  "buffer_get (written\<lparr>b_read := 4\<rparr>) = Inr (120, written\<lparr>b_read := 5\<rparr>)"
  by (simp_all add: written_def buffer_defs Let_def)

lemma empty_written:
  "\<not> buffer_empty (written\<lparr>b_read := 0\<rparr>)"
  "\<not> buffer_empty (written\<lparr>b_read := Suc 0\<rparr>)"
  "\<not> buffer_empty (written\<lparr>b_read := 2\<rparr>)"
  "\<not> buffer_empty (written\<lparr>b_read := 3\<rparr>)"
  "\<not> buffer_empty (written\<lparr>b_read := 4\<rparr>)"
  "buffer_empty (written\<lparr>b_read := 5\<rparr>)"
  by (simp_all add: written_def buffer_empty_def)

text \<open>
  \<^verbatim>\<open>get_until\<close> on \<open>a\<close>, CR, CR, LF, \<open>x\<close>: the first CR starts a match, the second
  CR breaks it and is appended to the output without being tried as the start of a new
  match, so the LF that follows matches nothing and the whole buffer is returned.
\<close>

lemma get_until_written:
  "buffer_get_until kStringDelimiter written =
     Some (Inr ([97, 13, 13, 10, 120], written\<lparr>b_read := 5\<rparr>))"
proof -
  have start: "written = written\<lparr>b_read := 0\<rparr>" by (simp add: written_def)
  have "buffer_get_until_loop [13, 10] (written\<lparr>b_read := 0\<rparr>) 0 [] =
        Some (Inr ([97, 13, 13, 10, 120], written\<lparr>b_read := 5\<rparr>))"
    apply (subst buffer_get_until_loop.simps, simp add: empty_written get_written)
    apply (subst buffer_get_until_loop.simps, simp add: empty_written get_written)
    apply (subst buffer_get_until_loop.simps, simp add: empty_written get_written)
    apply (subst buffer_get_until_loop.simps, simp add: empty_written get_written)
    apply (subst buffer_get_until_loop.simps, simp add: empty_written get_written)
    apply (subst buffer_get_until_loop.simps, simp add: empty_written get_written)
    done
  then show ?thesis
    unfolding buffer_get_until_def kStringDelimiter_def by (subst start) simp
qed

lemma rest_written:
  "buffer_to_string (written\<lparr>b_read := 5\<rparr>) = Inr ([], written\<lparr>b_read := 5\<rparr>)"
  by (simp add: written_def buffer_defs Let_def)

subsection \<open>Framing: the claims\<close>

text \<open>
  C7 (fails on the code). The frame round trip says that a message encoded as a frame and
  decoded again is the same message, body included. A Response with a body of 510 bytes
  \<open>A\<close> (0x41), framed by \<^verbatim>\<open>PutMessageInOutputBuffer\<close> on a fresh connection, sent, and
  read by \<^verbatim>\<open>ReadMessage\<close> on a fresh connection that receives the 515 bytes at once, comes
  back with a body of 509 bytes \<open>A\<close> followed by the byte 3, the opcode.
\<close>

theorem frame_round_trip_fails:
  "transmit \<lparr>opcode = kResponse, body = buffer_of (replicate 510 65)\<rparr> =
     Some (Returned (kResponse, replicate 509 65 @ [3]))"
  using encode_sample
  by (simp add: transmit_def sample_def send_sample read_sample decoded_bytes garbled_def
      kResponse_def)

text \<open>
  C10 (fails on the code). Decoding the encoding of a Write message is claimed to return the
  file name and the line for every file name without the delimiter CR LF. The file name
  \<open>a\<close>, CR contains no CR LF; with the line \<open>x\<close> it is decoded as the file name
  \<open>a\<close>, CR, CR, LF, \<open>x\<close> and the empty line.
\<close>

theorem write_round_trip_fails:
  "write_round_trip \<lparr>wm_file_name = bytes_of [CHR ''a'', CHR 0x0D], wm_line = bytes_of ''x''\<rparr> =
     Some (Inr \<lparr>wm_file_name = bytes_of [CHR ''a'', CHR 0x0D, CHR 0x0D, CHR 0x0A, CHR ''x''],
                wm_line = []\<rparr>)"
  by (simp add: write_round_trip_def write_encoded Message_ToWrite_def get_until_written
      rest_written)

subsection \<open>File service: the claims\<close>

text \<open>
  C8 (fails on the code). \<^verbatim>\<open>ReadLastLine\<close> is claimed to return the whole content of
  a file that holds no newline, \<open>abc\<close> for the content \<open>abc\<close>. On that content the
  loop steps back to the first character, the next \<^verbatim>\<open>seekg(-1, cur)\<close> fails and leaves
  the stream failed, and \<^verbatim>\<open>std::getline\<close> reads nothing: the result is the empty
  string. The other two examples of the claim hold.
\<close>

theorem read_last_line_without_newline:
  "ReadLastLine (served\<lparr>files := [''/data/log'' \<mapsto> ''abc'']\<rparr>) ''log'' = Inr [] \<and>
   read_last_line (opened ''abc'') = [] \<and>
   read_last_line (opened [CHR ''a'', newline, CHR ''b'', newline]) = ''b'' \<and>
   read_last_line (opened []) = []"
  by code_simp

theorem read_last_line_without_newline_witness:
  "access_allowed served ''log'' \<and> char_at ''log'' 0 \<noteq> CHR ''.'' \<and>
   ReadLastLine (served\<lparr>files := [''/data/log'' \<mapsto> ''abc'']\<rparr>) ''log'' = Inr []"
proof -
  have "access_allowed served ''log''" and "char_at ''log'' 0 \<noteq> CHR ''.''"
    by code_simp+
  with read_last_line_without_newline show ?thesis by blast
qed

text \<open>
  C9 (fails on the code). \<^verbatim>\<open>AppendLine\<close> is claimed to fail with "Invalid file
  access" for a hidden-file name. For the name \<open>.hidden\<close> under the root \<open>/data\<close> it
  appends the line to \<open>/data/.hidden\<close> and \<^verbatim>\<open>HandleWrite\<close> sends Ok, while
  \<^verbatim>\<open>ReadLastLine\<close>, which also tests the first character of the name, refuses the same
  name.
\<close>

theorem hidden_file_appended:
  "(case AppendLine served ''.hidden'' ''x'' of
      Inl e \<Rightarrow> None
    | Inr s \<Rightarrow> files s ''/data/.hidden'') = Some [CHR ''x'', newline] \<and>
   snd (HandleWrite served (''.hidden'', ''x'')) = (SendOk, AwaitMessage) \<and>
   ReadLastLine served ''.hidden'' = Inl (Error ''Invalid file access'')"
  by code_simp

theorem hidden_file_appended_witness:
  "access_allowed served ''.hidden'' \<and> char_at ''.hidden'' 0 = CHR ''.'' \<and>
   snd (HandleWrite served (''.hidden'', ''x'')) = (SendOk, AwaitMessage)"
proof -
  have "access_allowed served ''.hidden''" and "char_at ''.hidden'' 0 = CHR ''.''"
    by code_simp+
  with hidden_file_appended show ?thesis by blast
qed

end
